theory Spec2Isabelle
  imports Main
begin

section \<open>Python string operations used by the plugin\<close>

text \<open>
  The plugin is \<^verbatim>\<open>certbot_dns_hostinger/_internal/dns_hostinger.py\<close>. Python strings are
  modelled as \<^typ>\<open>string\<close>. Besides equality and concatenation, the code under study uses:
  \<^verbatim>\<open>str.split(".")\<close>, \<^verbatim>\<open>".".join(parts)\<close>, \<^verbatim>\<open>str.endswith(s)\<close> and the slice
  \<^verbatim>\<open>s[:-n]\<close> with \<open>n \<ge> 1\<close>.
\<close>

text \<open>
  \<^verbatim>\<open>s.split(sep)\<close> for a one-character separator: every occurrence of the separator
  ends a piece, empty pieces are kept, and the result is never empty
  (\<^verbatim>\<open>"".split(".") == [""]\<close>).
\<close>

fun split_py :: "char \<Rightarrow> string \<Rightarrow> string list" where
  "split_py sep [] = [[]]"
| "split_py sep (c # cs) =
     (if c = sep then [] # split_py sep cs
      else (case split_py sep cs of
              [] \<Rightarrow> [[c]]
            | p # ps \<Rightarrow> (c # p) # ps))"

text \<open>\<^verbatim>\<open>sep.join(parts)\<close>.\<close>

fun join_py :: "string \<Rightarrow> string list \<Rightarrow> string" where
  "join_py sep [] = []"
| "join_py sep [p] = p"
| "join_py sep (p # q # ps) = p @ sep @ join_py sep (q # ps)"

text \<open>\<^verbatim>\<open>s.endswith(suf)\<close>.\<close>

definition endswith :: "string \<Rightarrow> string \<Rightarrow> bool" where
  "endswith s suf \<longleftrightarrow>
     length suf \<le> length s \<and> drop (length s - length suf) s = suf"

section \<open>Zone resolution and relative names\<close>

text \<open>
  \<^verbatim>\<open>_HostingerClient._get_root_domain\<close> (lines 140--156). The slice \<^verbatim>\<open>parts[-2:]\<close> is the
  last two elements of a list that has at least two. The method does not read or write
  the object it is called on.
\<close>

definition get_root_domain :: "string \<Rightarrow> string" where
  "get_root_domain domain =
     (let parts = split_py CHR ''.'' domain in
      if length parts \<ge> 2 then
        (let root = join_py ''.'' (drop (length parts - 2) parts) in root)
      else domain)"

text \<open>
  The computation of the local variable \<^verbatim>\<open>subdomain\<close>, written out twice in the source
  with the same text: in \<^verbatim>\<open>add_txt_record\<close> (lines 169--174) and in \<^verbatim>\<open>del_txt_record\<close>
  (lines 232--237). The suffix tested is \<^verbatim>\<open>f".{root_domain}"\<close>, whose length is at least
  one, so the slice \<^verbatim>\<open>record_name[: -len(...)]\<close> drops exactly that many characters from
  the end.
\<close>

definition subdomain :: "string \<Rightarrow> string \<Rightarrow> string" where
  "subdomain record_name root_domain =
     (if endswith record_name (''.'' @ root_domain) then
        take (length record_name - length (''.'' @ root_domain)) record_name
      else if record_name = root_domain then ''@''
      else record_name)"

section \<open>Exceptions, request models and the provider\<close>

text \<open>
  Exceptions are values. \<open>exn\<close> holds the subclasses of \<^verbatim>\<open>Exception\<close> that occur:
  \<^verbatim>\<open>Exception(msg)\<close> stands for any error raised by the provider library or its
  transport, \<^verbatim>\<open>ImportError\<close> is tested for by \<^verbatim>\<open>_get_api_client\<close>, and \<^verbatim>\<open>errors.Error\<close> and
  \<^verbatim>\<open>errors.PluginError\<close> are certbot's. Every \<^verbatim>\<open>PluginError\<close> raised by the modelled
  methods is raised \<^verbatim>\<open>from\<close> a cause, which is the second argument. Signals that derive
  from \<^verbatim>\<open>BaseException\<close> only (an interrupt, an exit) are not errors of a call and are
  not modelled.
\<close>

datatype exn =
    Exception string
  | ImportError string
  | Error string
  | PluginError string exn

text \<open>\<^verbatim>\<open>str(e)\<close>, as used by the f-strings that format an exception.\<close>

fun str :: "exn \<Rightarrow> string" where
  "str (Exception msg) = msg"
| "str (ImportError msg) = msg"
| "str (Error msg) = msg"
| "str (PluginError msg cause) = msg"

text \<open>
  The request models of \<^verbatim>\<open>hostinger_api.models\<close>, each constructor named after its
  class, with the keyword arguments in the order given in the selectors.
\<close>

datatype destroy_filter =
  DNSV1ZoneDestroyRequestFiltersInner (filter_name: string) (filter_type: string)

datatype destroy_request =
  DNSV1ZoneDestroyRequest (filters: "destroy_filter list")

datatype update_record =
  DNSV1ZoneUpdateRequestZoneInnerRecordsInner (rr_content: string)

datatype update_zone =
  DNSV1ZoneUpdateRequestZoneInner
    (zone_name: string) (zone_type: string) (zone_ttl: int) (records: "update_record list")

datatype update_request =
  DNSV1ZoneUpdateRequest (zone: "update_zone list") (overwrite: bool)

text \<open>
  An entry of the list returned by \<^verbatim>\<open>get_dns_records_v1\<close>. The code reads \<^verbatim>\<open>.name\<close> and
  \<^verbatim>\<open>.type\<close> only; \<^verbatim>\<open>content\<close> and \<^verbatim>\<open>ttl\<close> (here \<open>record_ttl\<close>) are the other fields the specification and the
  test fixtures give to an entry.
\<close>

record dns_record =
  name :: string
  type :: string
  content :: string
  record_ttl :: int

text \<open>
  The provider behind the API client is external. It is a parameter of the model: a
  record of behaviours over a server state \<open>'s\<close>, each of which may raise.
  \<^item> \<open>new_dns_zone_api token\<close> is the body of the \<^verbatim>\<open>try\<close> in \<^verbatim>\<open>_get_api_client\<close>: the import
    of \<^verbatim>\<open>hostinger_api\<close> and the construction of \<^verbatim>\<open>Configuration\<close>, \<^verbatim>\<open>ApiClient\<close> and
    \<^verbatim>\<open>DNSZoneApi\<close>; \<open>Some e\<close> means that it raised \<open>e\<close>.
  \<^item> \<open>import_models\<close> is the statement \<^verbatim>\<open>from hostinger_api.models import ...\<close>.
  \<^item> the three remaining fields are the methods of \<^verbatim>\<open>DNSZoneApi\<close> that the plugin calls.
\<close>

record 's provider =
  new_dns_zone_api :: "string \<Rightarrow> exn option"
  import_models :: "exn option"
  get_dns_records_v1 :: "string \<Rightarrow> 's \<Rightarrow> (exn + dns_record list) \<times> 's"
  delete_dns_records_v1 :: "string \<Rightarrow> destroy_request \<Rightarrow> 's \<Rightarrow> exn option \<times> 's"
  update_dns_records_v1 :: "string \<Rightarrow> update_request \<Rightarrow> 's \<Rightarrow> exn option \<times> 's"

text \<open>
  What can be observed of a run. An API client object is identified by a handle, the
  number of API clients constructed before it. Every request is recorded in \<open>calls\<close>,
  oldest first, with the handle it was made through and its outcome (\<open>None\<close> when the
  call returned, \<open>Some e\<close> when it raised \<open>e\<close>). Of the log, the records at level
  WARNING (\<^verbatim>\<open>logger.warning\<close>) and ERROR (\<^verbatim>\<open>logger.exception\<close>) are kept; the INFO and
  DEBUG records, on which no control flow depends, are left out.
\<close>

datatype api_call =
    GetDnsRecords nat string
  | DeleteDnsRecords nat string destroy_request
  | UpdateDnsRecords nat string update_request

datatype level = WARNING | ERROR

record 's world =
  server :: 's
  instances :: nat
  calls :: "(api_call \<times> exn option) list"
  logged :: "(level \<times> string) list"

text \<open>The requests recorded between an earlier world and a later one, and the log records.\<close>

definition issued :: "'s world \<Rightarrow> 's world \<Rightarrow> (api_call \<times> exn option) list" where
  "issued w w' = drop (length (calls w)) (calls w')"

definition logged_since :: "'s world \<Rightarrow> 's world \<Rightarrow> (level \<times> string) list" where
  "logged_since w w' = drop (length (logged w)) (logged w')"

text \<open>
  A method call on the API client with handle \<open>h\<close>: the provider's behaviour on the
  server state, recorded in \<open>calls\<close>.
\<close>

definition api_get_dns_records_v1 ::
  "'s provider \<Rightarrow> nat \<Rightarrow> string \<Rightarrow> 's world \<Rightarrow> (exn + dns_record list) \<times> 's world" where
  "api_get_dns_records_v1 P h domain w =
     (case get_dns_records_v1 P domain (server w) of
        (Inl e, s) \<Rightarrow>
          (Inl e, w\<lparr>server := s, calls := calls w @ [(GetDnsRecords h domain, Some e)]\<rparr>)
      | (Inr zone_records, s) \<Rightarrow>
          (Inr zone_records,
           w\<lparr>server := s, calls := calls w @ [(GetDnsRecords h domain, None)]\<rparr>))"

definition api_delete_dns_records_v1 ::
  "'s provider \<Rightarrow> nat \<Rightarrow> string \<Rightarrow> destroy_request \<Rightarrow> 's world \<Rightarrow> exn option \<times> 's world" where
  "api_delete_dns_records_v1 P h domain request w =
     (case delete_dns_records_v1 P domain request (server w) of
        (r, s) \<Rightarrow>
          (r, w\<lparr>server := s, calls := calls w @ [(DeleteDnsRecords h domain request, r)]\<rparr>))"

definition api_update_dns_records_v1 ::
  "'s provider \<Rightarrow> nat \<Rightarrow> string \<Rightarrow> update_request \<Rightarrow> 's world \<Rightarrow> exn option \<times> 's world" where
  "api_update_dns_records_v1 P h domain request w =
     (case update_dns_records_v1 P domain request (server w) of
        (r, s) \<Rightarrow>
          (r, w\<lparr>server := s, calls := calls w @ [(UpdateDnsRecords h domain request, r)]\<rparr>))"

section \<open>The Hostinger client\<close>

text \<open>
  \<^verbatim>\<open>_HostingerClient\<close>: the token and the cached API client, \<open>None\<close> until the first use
  (\<^verbatim>\<open>__init__\<close>, lines 111--115).
\<close>

record hostinger_client =
  api_token :: string
  api_client :: "nat option"

definition HostingerClient :: "string \<Rightarrow> hostinger_client" where
  "HostingerClient token = \<lparr>api_token = token, api_client = None\<rparr>"

text \<open>
  \<^verbatim>\<open>_get_api_client\<close> (lines 117--138). Of the exceptions of the construction, an
  \<^verbatim>\<open>ImportError\<close> is logged and replaced by a \<^verbatim>\<open>PluginError\<close>; any other one leaves the
  method as it is.
\<close>

definition get_api_client ::
  "'s provider \<Rightarrow> hostinger_client \<Rightarrow> 's world \<Rightarrow> (exn + nat) \<times> hostinger_client \<times> 's world" where
  "get_api_client P self w =
     (case api_client self of
        None \<Rightarrow>
          (case new_dns_zone_api P (api_token self) of
             None \<Rightarrow>
               (Inr (instances w), self\<lparr>api_client := Some (instances w)\<rparr>,
                w\<lparr>instances := Suc (instances w)\<rparr>)
           | Some (ImportError m) \<Rightarrow>
               (Inl (PluginError
                  ''Could not import hostinger-api. Please install it with: pip install hostinger-api''
                  (ImportError m)),
                self,
                w\<lparr>logged := logged w @
                   [(ERROR, ''Encountered error initializing Hostinger API client'')]\<rparr>)
           | Some e \<Rightarrow> (Inl e, self, w))
      | Some h \<Rightarrow> (Inr h, self, w))"

text \<open>
  The body of the \<^verbatim>\<open>try\<close> of \<^verbatim>\<open>add_txt_record\<close> (lines 162--214); \<open>Some e\<close> is an exception
  that leaves the body. The inner \<^verbatim>\<open>try\<close> around the delete request (lines 195--201) is
  the \<^verbatim>\<open>case\<close> that defines \<open>w3\<close>.
\<close>

definition add_txt_record_try ::
  "'s provider \<Rightarrow> hostinger_client \<Rightarrow> string \<Rightarrow> string \<Rightarrow> string \<Rightarrow> int \<Rightarrow> 's world \<Rightarrow>
   exn option \<times> hostinger_client \<times> 's world" where
  "add_txt_record_try P self domain record_name record_content ttl w =
     (case get_api_client P self w of
        (Inl e, self1, w1) \<Rightarrow> (Some e, self1, w1)
      | (Inr api, self1, w1) \<Rightarrow>
          (let root_domain = get_root_domain domain;
               sub = subdomain record_name root_domain
           in case import_models P of
                Some e \<Rightarrow> (Some e, self1, w1)
              | None \<Rightarrow>
                  (case api_get_dns_records_v1 P api root_domain w1 of
                     (Inl e, w2) \<Rightarrow> (Some e, self1, w2)
                   | (Inr zone_records, w2) \<Rightarrow>
                       (let existing_acme =
                              filter (\<lambda>z. name z = sub \<and> type z = ''TXT'') zone_records;
                            w3 =
                              (if existing_acme \<noteq> [] then
                                 (let delete_filter =
                                        DNSV1ZoneDestroyRequestFiltersInner sub ''TXT'';
                                      delete_request = DNSV1ZoneDestroyRequest [delete_filter]
                                  in case api_delete_dns_records_v1 P api root_domain
                                            delete_request w2 of
                                       (None, w') \<Rightarrow> w'
                                     | (Some delete_error, w') \<Rightarrow>
                                         w'\<lparr>logged := logged w' @
                                            [(WARNING, ''Error deleting existing records: ''
                                                @ str delete_error)]\<rparr>)
                               else w2);
                            new_zone =
                              DNSV1ZoneUpdateRequestZoneInner sub ''TXT'' ttl
                                [DNSV1ZoneUpdateRequestZoneInnerRecordsInner record_content];
                            update_request = DNSV1ZoneUpdateRequest [new_zone] False
                        in case api_update_dns_records_v1 P api root_domain
                                  update_request w3 of
                             (r, w4) \<Rightarrow> (r, self1, w4)))))"

text \<open>
  \<^verbatim>\<open>add_txt_record\<close> (lines 158--219): the \<^verbatim>\<open>except Exception\<close> clause logs and raises a
  \<^verbatim>\<open>PluginError\<close> from the exception caught. The result \<open>None\<close> is a normal return.
\<close>

definition add_txt_record ::
  "'s provider \<Rightarrow> hostinger_client \<Rightarrow> string \<Rightarrow> string \<Rightarrow> string \<Rightarrow> int \<Rightarrow> 's world \<Rightarrow>
   exn option \<times> hostinger_client \<times> 's world" where
  "add_txt_record P self domain record_name record_content ttl w =
     (case add_txt_record_try P self domain record_name record_content ttl w of
        (None, self', w') \<Rightarrow> (None, self', w')
      | (Some e, self', w') \<Rightarrow>
          (Some (PluginError (''Encountered error adding TXT record: '' @ str e) e),
           self',
           w'\<lparr>logged := logged w' @ [(ERROR, ''Encountered error adding TXT record'')]\<rparr>))"

text \<open>
  The body of the \<^verbatim>\<open>try\<close> of \<^verbatim>\<open>del_txt_record\<close> (lines 225--251). The third parameter,
  \<^verbatim>\<open>_record_content\<close>, does not occur in the body.
\<close>

definition del_txt_record_try ::
  "'s provider \<Rightarrow> hostinger_client \<Rightarrow> string \<Rightarrow> string \<Rightarrow> string \<Rightarrow> 's world \<Rightarrow>
   exn option \<times> hostinger_client \<times> 's world" where
  "del_txt_record_try P self domain record_name record_content w =
     (case get_api_client P self w of
        (Inl e, self1, w1) \<Rightarrow> (Some e, self1, w1)
      | (Inr api, self1, w1) \<Rightarrow>
          (let root_domain = get_root_domain domain;
               sub = subdomain record_name root_domain
           in case import_models P of
                Some e \<Rightarrow> (Some e, self1, w1)
              | None \<Rightarrow>
                  (let delete_filter = DNSV1ZoneDestroyRequestFiltersInner sub ''TXT'';
                       delete_request = DNSV1ZoneDestroyRequest [delete_filter]
                   in case api_delete_dns_records_v1 P api root_domain
                             delete_request w1 of
                        (r, w2) \<Rightarrow> (r, self1, w2))))"

text \<open>
  \<^verbatim>\<open>del_txt_record\<close> (lines 221--254): the \<^verbatim>\<open>except Exception\<close> clause logs a warning and
  falls off the end of the method.
\<close>

definition del_txt_record ::
  "'s provider \<Rightarrow> hostinger_client \<Rightarrow> string \<Rightarrow> string \<Rightarrow> string \<Rightarrow> 's world \<Rightarrow>
   exn option \<times> hostinger_client \<times> 's world" where
  "del_txt_record P self domain record_name record_content w =
     (case del_txt_record_try P self domain record_name record_content w of
        (None, self', w') \<Rightarrow> (None, self', w')
      | (Some e, self', w') \<Rightarrow>
          (None, self',
           w'\<lparr>logged := logged w' @
              [(WARNING, ''Encountered error deleting TXT record: '' @ str e)]\<rparr>))"

section \<open>The authenticator\<close>

text \<open>
  \<^verbatim>\<open>Authenticator\<close>: its only field is \<^verbatim>\<open>credentials\<close>, \<open>None\<close> until the setup phase has
  run; \<open>conf_api_token\<close> is \<^verbatim>\<open>credentials.conf("api-token")\<close>. The class attribute \<^verbatim>\<open>ttl\<close> is 60.
\<close>

datatype credentials_configuration = CredentialsConfiguration (conf_api_token: string)

record authenticator =
  credentials :: "credentials_configuration option"

definition Authenticator_ttl :: int where
  "Authenticator_ttl = 60"

text \<open>
  \<^verbatim>\<open>_get_hostinger_client\<close> (lines 97--105): a new \<^verbatim>\<open>_HostingerClient\<close> at every call. The two
  statements after the \<^verbatim>\<open>return\<close> are never reached.
\<close>

definition get_hostinger_client :: "authenticator \<Rightarrow> exn + hostinger_client" where
  "get_hostinger_client self =
     (case credentials self of
        None \<Rightarrow> Inl (Error ''Plugin has not been prepared.'')
      | Some c \<Rightarrow> Inr (HostingerClient (conf_api_token c)))"

text \<open>\<^verbatim>\<open>_perform\<close> (lines 76--85) and \<^verbatim>\<open>_cleanup\<close> (lines 87--95).\<close>

definition perform ::
  "'s provider \<Rightarrow> authenticator \<Rightarrow> string \<Rightarrow> string \<Rightarrow> string \<Rightarrow> 's world \<Rightarrow>
   exn option \<times> 's world" where
  "perform P self domain validation_name validation w =
     (case get_hostinger_client self of
        Inl e \<Rightarrow> (Some e, w)
      | Inr client \<Rightarrow>
          (case add_txt_record P client domain validation_name validation Authenticator_ttl w of
             (r, client', w') \<Rightarrow> (r, w')))"

definition cleanup ::
  "'s provider \<Rightarrow> authenticator \<Rightarrow> string \<Rightarrow> string \<Rightarrow> string \<Rightarrow> 's world \<Rightarrow>
   exn option \<times> 's world" where
  "cleanup P self domain validation_name validation w =
     (case get_hostinger_client self of
        Inl e \<Rightarrow> (Some e, w)
      | Inr client \<Rightarrow>
          (case del_txt_record P client domain validation_name validation w of
             (r, client', w') \<Rightarrow> (r, w')))"

section \<open>A stub provider\<close>

text \<open>
  Modelled from the spec: the DNS provider itself, which the repository reaches through
  the external \<^verbatim>\<open>hostinger_api\<close> package and replaces by mocks in its tests. The stub's
  state gives the records of every zone. Listing returns the records of the zone;
  delete-by-filter removes the records that match one of the filters in name and type;
  create with \<open>overwrite = False\<close> appends one record per value to the zone and leaves
  every other record as it is, and with \<open>overwrite = True\<close> the request's records replace
  the zone's. No stub call fails.
\<close>

definition matches :: "destroy_filter \<Rightarrow> dns_record \<Rightarrow> bool" where
  "matches f r \<longleftrightarrow> filter_name f = name r \<and> filter_type f = type r"

definition new_records :: "update_zone \<Rightarrow> dns_record list" where
  "new_records z =
     map (\<lambda>v. \<lparr>name = zone_name z, type = zone_type z, content = rr_content v,
               record_ttl = zone_ttl z\<rparr>) (records z)"

definition stub :: "(string \<Rightarrow> dns_record list) provider" where
  "stub =
     \<lparr>new_dns_zone_api = (\<lambda>token. None),
      import_models = None,
      get_dns_records_v1 = (\<lambda>domain s. (Inr (s domain), s)),
      delete_dns_records_v1 = (\<lambda>domain request s.
         (None, s(domain := filter (\<lambda>r. \<not> list_ex (\<lambda>f. matches f r) (filters request))
                               (s domain)))),
      update_dns_records_v1 = (\<lambda>domain request s.
         (None, s(domain := (if overwrite request then [] else s domain)
                            @ concat (map new_records (zone request)))))\<rparr>"

text \<open>
  The stub with failures injected: each argument that is \<open>Some e\<close> makes the
  corresponding step raise \<open>e\<close> and leave the server state as it is.
\<close>

definition failing ::
  "exn option \<Rightarrow> exn option \<Rightarrow> exn option \<Rightarrow> exn option \<Rightarrow>
   (string \<Rightarrow> dns_record list) provider" where
  "failing construct_error list_error delete_error update_error =
     \<lparr>new_dns_zone_api = (\<lambda>token. construct_error),
      import_models = None,
      get_dns_records_v1 = (\<lambda>domain s.
         case list_error of
           Some e \<Rightarrow> (Inl e, s)
         | None \<Rightarrow> get_dns_records_v1 stub domain s),
      delete_dns_records_v1 = (\<lambda>domain request s.
         case delete_error of
           Some e \<Rightarrow> (Some e, s)
         | None \<Rightarrow> delete_dns_records_v1 stub domain request s),
      update_dns_records_v1 = (\<lambda>domain request s.
         case update_error of
           Some e \<Rightarrow> (Some e, s)
         | None \<Rightarrow> update_dns_records_v1 stub domain request s)\<rparr>"

text \<open>An empty world over a given server state.\<close>

definition world0 :: "'s \<Rightarrow> 's world" where
  "world0 s = \<lparr>server = s, instances = 0, calls = [], logged = []\<rparr>"

section \<open>Notation for the requests built by the client\<close>

text \<open>
  The delete request of lines 196--197 and 248--249, and the update request of lines
  204--212, as functions of the values they are built from.
\<close>

abbreviation delete_request_of :: "string \<Rightarrow> destroy_request" where
  "delete_request_of sub \<equiv>
     DNSV1ZoneDestroyRequest [DNSV1ZoneDestroyRequestFiltersInner sub ''TXT'']"

abbreviation update_request_of :: "string \<Rightarrow> int \<Rightarrow> string \<Rightarrow> update_request" where
  "update_request_of sub ttl record_content \<equiv>
     DNSV1ZoneUpdateRequest
       [DNSV1ZoneUpdateRequestZoneInner sub ''TXT'' ttl
          [DNSV1ZoneUpdateRequestZoneInnerRecordsInner record_content]] False"

text \<open>The conflict set of a listing is not empty.\<close>

definition conflict :: "string \<Rightarrow> dns_record list \<Rightarrow> bool" where
  "conflict sub zone_records \<longleftrightarrow>
     list_ex (\<lambda>z. name z = sub \<and> type z = ''TXT'') zone_records"

text \<open>
  The names that a request carries: those of its filters, or of the entries it creates.
\<close>

fun request_names :: "api_call \<Rightarrow> string list" where
  "request_names (GetDnsRecords h domain) = []"
| "request_names (DeleteDnsRecords h domain request) = map filter_name (filters request)"
| "request_names (UpdateDnsRecords h domain request) = map zone_name (zone request)"

text \<open>The handle through which a request was made.\<close>

fun handle :: "api_call \<Rightarrow> nat" where
  "handle (GetDnsRecords h domain) = h"
| "handle (DeleteDnsRecords h domain request) = h"
| "handle (UpdateDnsRecords h domain request) = h"

text \<open>
  Server states used as concrete inputs: a server without records, and the zone of the
  repository's test fixture \<^verbatim>\<open>mock_dns_records\<close>.
\<close>

definition no_zone :: "string \<Rightarrow> dns_record list" where
  "no_zone = (\<lambda>domain. [])"

definition bbdevs_zone :: "string \<Rightarrow> dns_record list" where
  "bbdevs_zone =
     no_zone
       (''bbdevs.com'' :=
          [\<lparr>name = ''@'', type = ''A'', content = ''192.0.2.1'', record_ttl = 3600\<rparr>,
           \<lparr>name = ''www'', type = ''CNAME'', content = ''bbdevs.com'', record_ttl = 3600\<rparr>,
           \<lparr>name = ''_acme-challenge'', type = ''TXT'', content = ''old-challenge-content'',
              record_ttl = 300\<rparr>])"

text \<open>An authenticator after its setup phase.\<close>

definition prepared :: authenticator where
  "prepared = \<lparr>credentials = Some (CredentialsConfiguration ''test_token_123456789'')\<rparr>"

text \<open>
  The call of the test \<^verbatim>\<open>test_add_txt_record_with_existing_acme_record\<close>, against a
  given provider.
\<close>

definition acme_add ::
  "(string \<Rightarrow> dns_record list) provider \<Rightarrow>
   exn option \<times> hostinger_client \<times> (string \<Rightarrow> dns_record list) world" where
  "acme_add P =
     add_txt_record P (HostingerClient ''token'') ''bbdevs.com'' ''_acme-challenge.bbdevs.com''
       ''new-content'' 300 (world0 bbdevs_zone)"

text \<open>
  The call of the test \<^verbatim>\<open>test_del_txt_record_api_error_caught\<close>, against a given
  provider.
\<close>

definition acme_del ::
  "(string \<Rightarrow> dns_record list) provider \<Rightarrow>
   exn option \<times> hostinger_client \<times> (string \<Rightarrow> dns_record list) world" where
  "acme_del P =
     del_txt_record P (HostingerClient ''token'') ''bbdevs.com'' ''_acme-challenge.bbdevs.com''
       ''content'' (world0 bbdevs_zone)"

section \<open>Sequences of operations\<close>

text \<open>
  Sequential calls on one \<^verbatim>\<open>_HostingerClient\<close> object: each call receives the object as
  the previous call left it. The caller goes on whether a call returned or raised.
\<close>

datatype client_op =
    AddTxtRecord string string string int
  | DelTxtRecord string string string

fun run_client_op ::
  "'s provider \<Rightarrow> hostinger_client \<Rightarrow> client_op \<Rightarrow> 's world \<Rightarrow>
   exn option \<times> hostinger_client \<times> 's world" where
  "run_client_op P self (AddTxtRecord domain record_name record_content ttl) w =
     add_txt_record P self domain record_name record_content ttl w"
| "run_client_op P self (DelTxtRecord domain record_name record_content) w =
     del_txt_record P self domain record_name record_content w"

fun run_client_ops ::
  "'s provider \<Rightarrow> hostinger_client \<Rightarrow> client_op list \<Rightarrow> 's world \<Rightarrow>
   hostinger_client \<times> 's world" where
  "run_client_ops P self [] w = (self, w)"
| "run_client_ops P self (op # ops) w =
     (case run_client_op P self op w of (r, self', w') \<Rightarrow> run_client_ops P self' ops w')"

text \<open>
  Sequential calls of \<^verbatim>\<open>_perform\<close> and \<^verbatim>\<open>_cleanup\<close> on one \<^verbatim>\<open>Authenticator\<close>, which neither
  method changes.
\<close>

datatype challenge_op =
    Perform string string string
  | Cleanup string string string

fun run_challenge_op ::
  "'s provider \<Rightarrow> authenticator \<Rightarrow> challenge_op \<Rightarrow> 's world \<Rightarrow> exn option \<times> 's world" where
  "run_challenge_op P self (Perform domain validation_name validation) w =
     perform P self domain validation_name validation w"
| "run_challenge_op P self (Cleanup domain validation_name validation) w =
     cleanup P self domain validation_name validation w"

fun run_challenge_ops ::
  "'s provider \<Rightarrow> authenticator \<Rightarrow> challenge_op list \<Rightarrow> 's world \<Rightarrow> 's world" where
  "run_challenge_ops P self [] w = w"
| "run_challenge_ops P self (op # ops) w =
     run_challenge_ops P self ops (snd (run_challenge_op P self op w))"

text \<open>
  The flow of the test \<^verbatim>\<open>test_add_and_cleanup_challenge\<close> on a prepared authenticator,
  against the stub provider and a server without records: the world after \<^verbatim>\<open>_perform\<close>
  followed by \<^verbatim>\<open>_cleanup\<close>.
\<close>

definition perform_then_cleanup :: "(string \<Rightarrow> dns_record list) world" where
  "perform_then_cleanup =
     snd (cleanup stub prepared ''bbdevs.com'' ''_acme-challenge.bbdevs.com''
            ''test-challenge-content''
            (snd (perform stub prepared ''bbdevs.com'' ''_acme-challenge.bbdevs.com''
                    ''test-challenge-content'' (world0 no_zone))))"

section \<open>Facts about the string operations\<close>

lemma split_py_not_Nil: "split_py sep s \<noteq> []"
  by (induction s) (auto split: list.splits)

lemma split_py_no_sep: "sep \<notin> set s \<Longrightarrow> split_py sep s = [s]"
  by (induction s) auto

lemma split_py_append_sep:
  "sep \<notin> set p \<Longrightarrow> split_py sep (p @ sep # s) = p # split_py sep s"
  by (induction p) auto

lemma split_py_join_py:
  "ls \<noteq> [] \<Longrightarrow> \<forall>l \<in> set ls. sep \<notin> set l \<Longrightarrow>
   split_py sep (join_py [sep] ls) = ls"
proof (induction "[sep]" ls rule: join_py.induct)
  case 1
  then show ?case by simp
next
  case (2 p)
  then show ?case by (simp add: split_py_no_sep)
next
  case (3 p q ps)
  then show ?case by (simp add: split_py_append_sep)
qed

lemma drop_last_two:
  "2 \<le> length ls \<Longrightarrow> drop (length ls - 2) ls = [last (butlast ls), last ls]"
proof (induction ls rule: rev_induct)
  case Nil
  then show ?case by simp
next
  case (snoc x xs)
  then have "xs \<noteq> []" by auto
  then obtain ys y where xs: "xs = ys @ [y]"
    by (metis append_butlast_last_id)
  have "butlast (ys @ [y, x]) = ys @ [y]"
    by (simp add: butlast_append)
  then show ?case by (simp add: xs)
qed

lemma endswith_iff: "endswith s suf \<longleftrightarrow> (\<exists>x. s = x @ suf)"
proof
  assume "endswith s suf"
  then have "s = take (length s - length suf) s @ suf"
    by (metis append_take_drop_id endswith_def)
  then show "\<exists>x. s = x @ suf" ..
next
  assume "\<exists>x. s = x @ suf"
  then show "endswith s suf" by (auto simp: endswith_def)
qed

lemma subdomain_strip: "subdomain (x @ ''.'' @ root_domain) root_domain = x"
proof -
  have "endswith (x @ ''.'' @ root_domain) (''.'' @ root_domain)"
    unfolding endswith_iff by blast
  then show ?thesis by (simp add: subdomain_def)
qed

lemma not_endswith_longer: "length s < length suf \<Longrightarrow> \<not> endswith s suf"
  by (simp add: endswith_def)

lemma subdomain_apex: "subdomain root_domain root_domain = ''@''"
  by (simp add: subdomain_def not_endswith_longer)

lemma subdomain_outside:
  "\<not> (\<exists>x. record_name = x @ ''.'' @ root_domain) \<Longrightarrow> record_name \<noteq> root_domain \<Longrightarrow>
   subdomain record_name root_domain = record_name"
  by (simp add: subdomain_def endswith_iff)

section \<open>Claims about zone resolution and relative names\<close>

text \<open>
  Claim C2. A name made of two or more labels (strings without a dot) joined by dots
  resolves to its last two labels joined by a dot; a name without any dot, which is a
  single label, resolves to itself.
\<close>

theorem get_root_domain_last_two_labels:
  "(2 \<le> length ls \<and> (\<forall>l \<in> set ls. CHR ''.'' \<notin> set l) \<longrightarrow>
      get_root_domain (join_py ''.'' ls) = last (butlast ls) @ ''.'' @ last ls)
   \<and> (CHR ''.'' \<notin> set d \<longrightarrow> split_py CHR ''.'' d = [d] \<and> get_root_domain d = d)"
proof (intro conjI impI)
  assume a: "2 \<le> length ls \<and> (\<forall>l \<in> set ls. CHR ''.'' \<notin> set l)"
  then have ne: "ls \<noteq> []" by auto
  from a have sp: "split_py CHR ''.'' (join_py ''.'' ls) = ls"
    using split_py_join_py [OF ne, of "CHR ''.''"] by simp
  from a show "get_root_domain (join_py ''.'' ls) = last (butlast ls) @ ''.'' @ last ls"
    by (simp add: get_root_domain_def sp drop_last_two)
next
  assume "CHR ''.'' \<notin> set d"
  then show "split_py CHR ''.'' d = [d]" by (rule split_py_no_sep)
next
  assume "CHR ''.'' \<notin> set d"
  then show "get_root_domain d = d"
    by (simp add: get_root_domain_def split_py_no_sep)
qed

theorem get_root_domain_last_two_labels_witness:
  "get_root_domain ''auth.sso.bbdevs.com'' = ''bbdevs.com''
   \<and> get_root_domain ''localhost'' = ''localhost''"
  using get_root_domain_last_two_labels
    [of "[''auth'', ''sso'', ''bbdevs'', ''com'']" "''localhost''"]
  by simp

text \<open>
  Claim C3. The relative name of \<open>x.zone\<close> in \<open>zone\<close> is \<open>x\<close>; the relative name of
  \<open>zone\<close> itself is \<open>@\<close>; any other record name is returned unchanged. The computation
  is a total function to strings: no branch raises.
\<close>

theorem subdomain_cases:
  "(record_name = x @ ''.'' @ root_domain \<longrightarrow> subdomain record_name root_domain = x)
   \<and> (record_name = root_domain \<longrightarrow> subdomain record_name root_domain = ''@'')
   \<and> (\<not> (\<exists>y. record_name = y @ ''.'' @ root_domain) \<and> record_name \<noteq> root_domain \<longrightarrow>
        subdomain record_name root_domain = record_name)"
  using subdomain_strip [of x root_domain] subdomain_apex [of root_domain]
    subdomain_outside [of record_name root_domain]
  by auto

theorem subdomain_cases_witness:
  "subdomain ''_acme-challenge.sso.bbdevs.com'' ''bbdevs.com'' = ''_acme-challenge.sso''
   \<and> subdomain ''bbdevs.com'' ''bbdevs.com'' = ''@''
   \<and> subdomain ''example.org'' ''bbdevs.com'' = ''example.org''"
proof -
  have 1: "subdomain ''_acme-challenge.sso.bbdevs.com'' ''bbdevs.com'' = ''_acme-challenge.sso''"
    using subdomain_cases
      [of "''_acme-challenge.sso.bbdevs.com''" "''_acme-challenge.sso''" "''bbdevs.com''"]
    by simp
  have 2: "subdomain ''bbdevs.com'' ''bbdevs.com'' = ''@''"
    using subdomain_cases [of "''bbdevs.com''" "[]" "''bbdevs.com''"] by simp
  have "\<not> (\<exists>y. ''example.org'' = y @ ''.'' @ ''bbdevs.com'')"
    unfolding endswith_iff [symmetric] by (simp add: endswith_def)
  then have 3: "subdomain ''example.org'' ''bbdevs.com'' = ''example.org''"
    using subdomain_cases [of "''example.org''" "[]" "''bbdevs.com''"] by simp
  from 1 2 3 show ?thesis by simp
qed

section \<open>Facts about the client\<close>

lemma get_api_client_frame:
  "get_api_client P self w = (r, self', w') \<Longrightarrow> server w' = server w \<and> calls w' = calls w"
  by (auto simp: get_api_client_def split: option.splits exn.splits)

lemma get_api_client_handle:
  "get_api_client P self w = (Inr h, self', w') \<Longrightarrow> api_client self' = Some h \<and> logged w' = logged w"
  by (auto simp: get_api_client_def split: option.splits exn.splits)

lemma filter_conflict: "filter (\<lambda>z. name z = sub \<and> type z = ''TXT'') zr \<noteq> [] \<longleftrightarrow> conflict sub zr"
  by (simp add: conflict_def filter_empty_conv list_ex_iff)

lemma try_no_client:
  "get_api_client P self w = (Inl e, self1, w1) \<Longrightarrow>
   add_txt_record_try P self domain record_name record_content ttl w = (Some e, self1, w1)"
  by (simp add: add_txt_record_try_def)

lemma try_no_models:
  "get_api_client P self w = (Inr h, self1, w1) \<Longrightarrow> import_models P = Some e \<Longrightarrow>
   add_txt_record_try P self domain record_name record_content ttl w = (Some e, self1, w1)"
  by (simp add: add_txt_record_try_def Let_def)

lemma try_list_fails:
  "get_api_client P self w = (Inr h, self1, w1) \<Longrightarrow> import_models P = None \<Longrightarrow>
   get_dns_records_v1 P (get_root_domain domain) (server w1) = (Inl e, s) \<Longrightarrow>
   add_txt_record_try P self domain record_name record_content ttl w =
     (Some e, self1,
      w1\<lparr>server := s,
         calls := calls w1 @ [(GetDnsRecords h (get_root_domain domain), Some e)]\<rparr>)"
  by (simp add: add_txt_record_try_def Let_def api_get_dns_records_v1_def)

lemma try_no_conflict:
  "get_api_client P self w = (Inr h, self1, w1) \<Longrightarrow> import_models P = None \<Longrightarrow>
   get_dns_records_v1 P (get_root_domain domain) (server w1) = (Inr zr, s2) \<Longrightarrow>
   \<not> conflict (subdomain record_name (get_root_domain domain)) zr \<Longrightarrow>
   update_dns_records_v1 P (get_root_domain domain)
     (update_request_of (subdomain record_name (get_root_domain domain)) ttl record_content) s2
     = (ru, s4) \<Longrightarrow>
   add_txt_record_try P self domain record_name record_content ttl w =
     (ru, self1,
      w1\<lparr>server := s4,
         calls := calls w1 @
           [(GetDnsRecords h (get_root_domain domain), None),
            (UpdateDnsRecords h (get_root_domain domain)
               (update_request_of (subdomain record_name (get_root_domain domain)) ttl
                  record_content), ru)]\<rparr>)"
  by (simp add: add_txt_record_try_def Let_def api_get_dns_records_v1_def
      api_update_dns_records_v1_def filter_conflict)

lemma try_conflict:
  "get_api_client P self w = (Inr h, self1, w1) \<Longrightarrow> import_models P = None \<Longrightarrow>
   get_dns_records_v1 P (get_root_domain domain) (server w1) = (Inr zr, s2) \<Longrightarrow>
   conflict (subdomain record_name (get_root_domain domain)) zr \<Longrightarrow>
   delete_dns_records_v1 P (get_root_domain domain)
     (delete_request_of (subdomain record_name (get_root_domain domain))) s2 = (rd, s3) \<Longrightarrow>
   update_dns_records_v1 P (get_root_domain domain)
     (update_request_of (subdomain record_name (get_root_domain domain)) ttl record_content) s3
     = (ru, s4) \<Longrightarrow>
   add_txt_record_try P self domain record_name record_content ttl w =
     (ru, self1,
      w1\<lparr>server := s4,
         calls := calls w1 @
           [(GetDnsRecords h (get_root_domain domain), None),
            (DeleteDnsRecords h (get_root_domain domain)
               (delete_request_of (subdomain record_name (get_root_domain domain))), rd),
            (UpdateDnsRecords h (get_root_domain domain)
               (update_request_of (subdomain record_name (get_root_domain domain)) ttl
                  record_content), ru)],
         logged := logged w1 @
           (case rd of None \<Rightarrow> []
            | Some delete_error \<Rightarrow>
                [(WARNING, ''Error deleting existing records: '' @ str delete_error)])\<rparr>)"
  by (cases rd) (simp_all add: add_txt_record_try_def Let_def api_get_dns_records_v1_def
      api_update_dns_records_v1_def api_delete_dns_records_v1_def filter_conflict)


lemma add_txt_record_try_cases
  [case_names no_client no_models list_fails no_conflict conflict]:
  fixes P :: "'s provider" and self :: hostinger_client and w :: "'s world"
    and domain record_name record_content :: string and ttl :: int
  defines "root \<equiv> get_root_domain domain"
  defines "sub \<equiv> subdomain record_name (get_root_domain domain)"
  defines "t \<equiv> add_txt_record_try P self domain record_name record_content ttl w"
  obtains
    (no_client) e self1 w1 where
      "get_api_client P self w = (Inl e, self1, w1)"
      "t = (Some e, self1, w1)"
  | (no_models) h e self1 w1 where
      "get_api_client P self w = (Inr h, self1, w1)"
      "import_models P = Some e"
      "t = (Some e, self1, w1)"
  | (list_fails) h e s self1 w1 where
      "get_api_client P self w = (Inr h, self1, w1)"
      "import_models P = None"
      "get_dns_records_v1 P root (server w1) = (Inl e, s)"
      "t = (Some e, self1,
            w1\<lparr>server := s, calls := calls w1 @ [(GetDnsRecords h root, Some e)]\<rparr>)"
  | (no_conflict) h zr s2 ru s4 self1 w1 where
      "get_api_client P self w = (Inr h, self1, w1)"
      "import_models P = None"
      "get_dns_records_v1 P root (server w1) = (Inr zr, s2)"
      "\<not> conflict sub zr"
      "update_dns_records_v1 P root (update_request_of sub ttl record_content) s2 = (ru, s4)"
      "t = (ru, self1,
            w1\<lparr>server := s4,
               calls := calls w1 @
                 [(GetDnsRecords h root, None),
                  (UpdateDnsRecords h root (update_request_of sub ttl record_content), ru)]\<rparr>)"
  | (conflict) h zr s2 rd s3 ru s4 self1 w1 where
      "get_api_client P self w = (Inr h, self1, w1)"
      "import_models P = None"
      "get_dns_records_v1 P root (server w1) = (Inr zr, s2)"
      "conflict sub zr"
      "delete_dns_records_v1 P root (delete_request_of sub) s2 = (rd, s3)"
      "update_dns_records_v1 P root (update_request_of sub ttl record_content) s3 = (ru, s4)"
      "t = (ru, self1,
            w1\<lparr>server := s4,
               calls := calls w1 @
                 [(GetDnsRecords h root, None),
                  (DeleteDnsRecords h root (delete_request_of sub), rd),
                  (UpdateDnsRecords h root (update_request_of sub ttl record_content), ru)],
               logged := logged w1 @
                 (case rd of None \<Rightarrow> []
                  | Some delete_error \<Rightarrow>
                      [(WARNING, ''Error deleting existing records: '' @ str delete_error)])\<rparr>)"
proof -
  obtain r self1 w1 where g: "get_api_client P self w = (r, self1, w1)"
    by (rule prod_cases3)
  show thesis
  proof (cases r)
    case (Inl e)
    with g show thesis
      using no_client try_no_client unfolding t_def by blast
  next
    case (Inr h)
    note g' = g [unfolded Inr]
    show thesis
    proof (cases "import_models P")
      case (Some e)
      with g' show thesis
        using no_models try_no_models unfolding t_def by blast
    next
      case None
      obtain l s2 where l: "get_dns_records_v1 P root (server w1) = (l, s2)"
        by (rule prod.exhaust)
      show thesis
      proof (cases l)
        case (Inl e)
        show thesis
          using list_fails [OF g' None l [unfolded Inl]]
            try_list_fails [OF g' None l [unfolded Inl root_def]]
          unfolding t_def root_def by blast
      next
        case (Inr zr)
        note l' = l [unfolded Inr]
        show thesis
        proof (cases "conflict sub zr")
          case False
          obtain ru s4 where
            u: "update_dns_records_v1 P root (update_request_of sub ttl record_content) s2
                = (ru, s4)"
            by (rule prod.exhaust)
          show thesis
            using no_conflict [OF g' None l' False u]
              try_no_conflict [OF g' None l' [unfolded root_def] False [unfolded sub_def]
                u [unfolded root_def sub_def]]
            unfolding t_def root_def sub_def by blast
        next
          case True
          obtain rd s3 where
            d: "delete_dns_records_v1 P root (delete_request_of sub) s2 = (rd, s3)"
            by (rule prod.exhaust)
          obtain ru s4 where
            u: "update_dns_records_v1 P root (update_request_of sub ttl record_content) s3
                = (ru, s4)"
            by (rule prod.exhaust)
          show thesis
            using conflict [OF g' None l' True d u]
              try_conflict [OF g' None l' [unfolded root_def] True [unfolded sub_def]
                d [unfolded root_def sub_def] u [unfolded root_def sub_def]]
            unfolding t_def root_def sub_def by blast
        qed
      qed
    qed
  qed
qed


lemma issued_append: "calls w' = calls w @ cs \<Longrightarrow> issued w w' = cs"
  by (simp add: issued_def)

lemma logged_since_append: "logged w' = logged w @ ls \<Longrightarrow> logged_since w w' = ls"
  by (simp add: logged_since_def)

lemma root_bbdevs: "get_root_domain ''bbdevs.com'' = ''bbdevs.com''"
  by (simp add: get_root_domain_def)

lemma root_sso_bbdevs: "get_root_domain ''sso.bbdevs.com'' = ''bbdevs.com''"
  by (simp add: get_root_domain_def)

lemma sub_acme_bbdevs: "subdomain ''_acme-challenge.bbdevs.com'' ''bbdevs.com'' = ''_acme-challenge''"
  by (simp add: subdomain_def endswith_def)

lemma sub_acme_sso_bbdevs:
  "subdomain ''_acme-challenge.sso.bbdevs.com'' ''bbdevs.com'' = ''_acme-challenge.sso''"
  by (simp add: subdomain_def endswith_def)

section \<open>Claims about \<^verbatim>\<open>add_txt_record\<close>\<close>

text \<open>
  Claim C1. Take a call of \<^verbatim>\<open>add_txt_record\<close> that obtains its API client, imports the
  request models and receives the listing of the zone. If the listing holds a TXT record
  at the relative name, the requests issued are the listing, then exactly one
  delete-by-filter for that name and type TXT, then the create; otherwise they are the
  listing and the create, and no delete. The create is issued in both cases, whatever
  the outcome of the delete.
\<close>

theorem add_txt_record_conflict_removal:
  fixes P :: "'s provider" and self :: hostinger_client and w :: "'s world"
    and domain record_name record_content :: string and ttl :: int
  defines "root \<equiv> get_root_domain domain"
  defines "rel \<equiv> subdomain record_name (get_root_domain domain)"
  defines "w' \<equiv> snd (snd (add_txt_record P self domain record_name record_content ttl w))"
  assumes client: "fst (get_api_client P self w) = Inr h"
    and models: "import_models P = None"
    and listed: "get_dns_records_v1 P root (server w) = (Inr zone_records, s)"
  shows "map fst (issued w w') =
           (if \<exists>z \<in> set zone_records. name z = rel \<and> type z = ''TXT''
            then [GetDnsRecords h root,
                  DeleteDnsRecords h root
                    (DNSV1ZoneDestroyRequest [DNSV1ZoneDestroyRequestFiltersInner rel ''TXT'']),
                  UpdateDnsRecords h root
                    (DNSV1ZoneUpdateRequest
                       [DNSV1ZoneUpdateRequestZoneInner rel ''TXT'' ttl
                          [DNSV1ZoneUpdateRequestZoneInnerRecordsInner record_content]]
                       False)]
            else [GetDnsRecords h root,
                  UpdateDnsRecords h root
                    (DNSV1ZoneUpdateRequest
                       [DNSV1ZoneUpdateRequestZoneInner rel ''TXT'' ttl
                          [DNSV1ZoneUpdateRequestZoneInnerRecordsInner record_content]]
                       False)])"
proof -
  obtain self1 w1 where g: "get_api_client P self w = (Inr h, self1, w1)"
    using client by (cases "get_api_client P self w") auto
  have fr: "server w1 = server w" "calls w1 = calls w"
    using get_api_client_frame [OF g] by simp_all
  have l: "get_dns_records_v1 P (get_root_domain domain) (server w1) = (Inr zone_records, s)"
    using listed by (simp add: fr root_def)
  show ?thesis
  proof (cases "conflict rel zone_records")
    case False
    obtain ru s4 where
      u: "update_dns_records_v1 P (get_root_domain domain)
            (update_request_of (subdomain record_name (get_root_domain domain)) ttl
               record_content) s = (ru, s4)"
      by (rule prod.exhaust)
    have "calls w' = calls w @
            [(GetDnsRecords h root, None),
             (UpdateDnsRecords h root (update_request_of rel ttl record_content), ru)]"
      using try_no_conflict [OF g models l False [unfolded rel_def] u]
      by (cases ru) (simp_all add: w'_def add_txt_record_def fr root_def rel_def)
    from issued_append [OF this] False show ?thesis
      by (simp add: conflict_def list_ex_iff)
  next
    case True
    obtain rd s3 where
      d: "delete_dns_records_v1 P (get_root_domain domain)
            (delete_request_of (subdomain record_name (get_root_domain domain))) s = (rd, s3)"
      by (rule prod.exhaust)
    obtain ru s4 where
      u: "update_dns_records_v1 P (get_root_domain domain)
            (update_request_of (subdomain record_name (get_root_domain domain)) ttl
               record_content) s3 = (ru, s4)"
      by (rule prod.exhaust)
    have "calls w' = calls w @
            [(GetDnsRecords h root, None),
             (DeleteDnsRecords h root (delete_request_of rel), rd),
             (UpdateDnsRecords h root (update_request_of rel ttl record_content), ru)]"
      using try_conflict [OF g models l True [unfolded rel_def] d u]
      by (cases ru) (simp_all add: w'_def add_txt_record_def fr root_def rel_def)
    from issued_append [OF this] True show ?thesis
      by (simp add: conflict_def list_ex_iff)
  qed
qed

theorem add_txt_record_conflict_removal_witness:
  "map fst (issued (world0 bbdevs_zone)
      (snd (snd (add_txt_record stub (HostingerClient ''token'') ''bbdevs.com''
                   ''_acme-challenge.bbdevs.com'' ''new-content'' 300 (world0 bbdevs_zone))))) =
     [GetDnsRecords 0 ''bbdevs.com'',
      DeleteDnsRecords 0 ''bbdevs.com''
        (DNSV1ZoneDestroyRequest
           [DNSV1ZoneDestroyRequestFiltersInner ''_acme-challenge'' ''TXT'']),
      UpdateDnsRecords 0 ''bbdevs.com''
        (DNSV1ZoneUpdateRequest
           [DNSV1ZoneUpdateRequestZoneInner ''_acme-challenge'' ''TXT'' 300
              [DNSV1ZoneUpdateRequestZoneInnerRecordsInner ''new-content'']] False)]
   \<and> map fst (issued (world0 bbdevs_zone)
      (snd (snd (add_txt_record stub (HostingerClient ''token'') ''sso.bbdevs.com''
                   ''_acme-challenge.sso.bbdevs.com'' ''content'' 300 (world0 bbdevs_zone))))) =
     [GetDnsRecords 0 ''bbdevs.com'',
      UpdateDnsRecords 0 ''bbdevs.com''
        (DNSV1ZoneUpdateRequest
           [DNSV1ZoneUpdateRequestZoneInner ''_acme-challenge.sso'' ''TXT'' 300
              [DNSV1ZoneUpdateRequestZoneInnerRecordsInner ''content'']] False)]"
proof -
  have c: "fst (get_api_client stub (HostingerClient ''token'') (world0 bbdevs_zone)) = Inr 0"
    by (simp add: get_api_client_def HostingerClient_def stub_def world0_def)
  have m: "import_models stub = None"
    by (simp add: stub_def)
  have l: "get_dns_records_v1 stub ''bbdevs.com'' (server (world0 bbdevs_zone))
           = (Inr (bbdevs_zone ''bbdevs.com''), bbdevs_zone)"
    by (simp add: stub_def world0_def)
  have z: "bbdevs_zone ''bbdevs.com'' =
          [\<lparr>name = ''@'', type = ''A'', content = ''192.0.2.1'', record_ttl = 3600\<rparr>,
           \<lparr>name = ''www'', type = ''CNAME'', content = ''bbdevs.com'', record_ttl = 3600\<rparr>,
           \<lparr>name = ''_acme-challenge'', type = ''TXT'', content = ''old-challenge-content'',
              record_ttl = 300\<rparr>]"
    by (simp add: bbdevs_zone_def)
  show ?thesis
    using add_txt_record_conflict_removal
      [of stub "HostingerClient ''token''" "world0 bbdevs_zone" 0 "''bbdevs.com''"
        "bbdevs_zone ''bbdevs.com''" bbdevs_zone "''_acme-challenge.bbdevs.com''"
        "''new-content''" 300, OF c m]
      add_txt_record_conflict_removal
      [of stub "HostingerClient ''token''" "world0 bbdevs_zone" 0 "''sso.bbdevs.com''"
        "bbdevs_zone ''bbdevs.com''" bbdevs_zone "''_acme-challenge.sso.bbdevs.com''"
        "''content''" 300, OF c m]
      l
    by (simp add: root_bbdevs root_sso_bbdevs sub_acme_bbdevs sub_acme_sso_bbdevs z)
qed

lemma add_txt_record_result:
  "add_txt_record_try P self domain record_name record_content ttl w = (r, self1, w1) \<Longrightarrow>
   add_txt_record P self domain record_name record_content ttl w =
     (map_option (\<lambda>e. PluginError (''Encountered error adding TXT record: '' @ str e) e) r,
      self1,
      w1\<lparr>logged := logged w1 @
           (case r of None \<Rightarrow> []
            | Some e \<Rightarrow> [(ERROR, ''Encountered error adding TXT record'')])\<rparr>)"
  by (cases r) (simp_all add: add_txt_record_def)

lemmas eval_defs =
  add_txt_record_def add_txt_record_try_def del_txt_record_def del_txt_record_try_def
  get_api_client_def HostingerClient_def
  api_get_dns_records_v1_def api_delete_dns_records_v1_def api_update_dns_records_v1_def
  failing_def stub_def world0_def bbdevs_zone_def no_zone_def Let_def
  root_bbdevs sub_acme_bbdevs issued_def logged_since_def matches_def new_records_def

lemma acme_add_list_fails:
  "issued (world0 bbdevs_zone)
     (snd (snd (acme_add (failing None (Some (Exception ''API Error'')) None None)))) =
   [(GetDnsRecords 0 ''bbdevs.com'', Some (Exception ''API Error''))]"
  by (simp add: acme_add_def eval_defs)

lemma acme_add_delete_fails:
  "issued (world0 bbdevs_zone)
     (snd (snd (acme_add (failing None None (Some (Exception ''API Error'')) None)))) =
   [(GetDnsRecords 0 ''bbdevs.com'', None),
    (DeleteDnsRecords 0 ''bbdevs.com'' (delete_request_of ''_acme-challenge''),
     Some (Exception ''API Error'')),
    (UpdateDnsRecords 0 ''bbdevs.com''
       (update_request_of ''_acme-challenge'' 300 ''new-content''), None)]"
  by (simp add: acme_add_def eval_defs)

lemma acme_add_update_fails:
  "issued (world0 bbdevs_zone)
     (snd (snd (acme_add (failing None None None (Some (Exception ''API Error'')))))) =
   [(GetDnsRecords 0 ''bbdevs.com'', None),
    (DeleteDnsRecords 0 ''bbdevs.com'' (delete_request_of ''_acme-challenge''), None),
    (UpdateDnsRecords 0 ''bbdevs.com''
       (update_request_of ''_acme-challenge'' 300 ''new-content''),
     Some (Exception ''API Error''))]"
  by (simp add: acme_add_def eval_defs)

text \<open>
  Claim C4. In \<^verbatim>\<open>add_txt_record\<close>, a list request that fails and a create request that
  fails each make the method raise \<^verbatim>\<open>PluginError\<close> from the exception of the request,
  with that exception's text in the message. A delete request that fails is logged as a
  warning, the create request is still issued after it, and the method then ends as the
  create request does: it returns normally when the create succeeds.
\<close>

theorem add_txt_record_failures:
  fixes P :: "'s provider" and self :: hostinger_client and w :: "'s world"
    and domain record_name record_content :: string and ttl :: int
  defines "res \<equiv> add_txt_record P self domain record_name record_content ttl w"
  defines "wrap \<equiv> (\<lambda>e. PluginError (''Encountered error adding TXT record: '' @ str e) e)"
  shows
    "((GetDnsRecords h z, Some e) \<in> set (issued w (snd (snd res))) \<longrightarrow>
        fst res = Some (wrap e))
     \<and> ((UpdateDnsRecords h z q, Some e) \<in> set (issued w (snd (snd res))) \<longrightarrow>
        fst res = Some (wrap e))
     \<and> ((DeleteDnsRecords h z d, Some e) \<in> set (issued w (snd (snd res))) \<longrightarrow>
        (WARNING, ''Error deleting existing records: '' @ str e)
          \<in> set (logged_since w (snd (snd res)))
        \<and> (\<exists>q' ru. issued w (snd (snd res)) =
               [(GetDnsRecords h z, None), (DeleteDnsRecords h z d, Some e),
                (UpdateDnsRecords h z q', ru)]
             \<and> fst res = map_option wrap ru))"
proof (cases rule: add_txt_record_try_cases [of P self w domain record_name record_content ttl])
  case (no_client e' self1 w1)
  have "calls w1 = calls w"
    using get_api_client_frame [OF no_client(1)] by simp
  then have "issued w (snd (snd res)) = []"
    using add_txt_record_result [OF no_client(2)] by (simp add: res_def issued_def)
  then show ?thesis by simp
next
  case (no_models h' e' self1 w1)
  have "calls w1 = calls w"
    using get_api_client_frame [OF no_models(1)] by simp
  then have "issued w (snd (snd res)) = []"
    using add_txt_record_result [OF no_models(3)] by (simp add: res_def issued_def)
  then show ?thesis by simp
next
  case (list_fails h' e' s self1 w1)
  have c: "calls w1 = calls w"
    using get_api_client_frame [OF list_fails(1)] by simp
  have r: "fst res = Some (wrap e')"
    using add_txt_record_result [OF list_fails(4)] by (simp add: res_def wrap_def)
  have "issued w (snd (snd res)) = [(GetDnsRecords h' (get_root_domain domain), Some e')]"
    using add_txt_record_result [OF list_fails(4)] c by (simp add: res_def issued_def)
  with r show ?thesis by simp
next
  case (no_conflict h' zr s2 ru s4 self1 w1)
  have c: "calls w1 = calls w"
    using get_api_client_frame [OF no_conflict(1)] by simp
  have r: "fst res = map_option wrap ru"
    using add_txt_record_result [OF no_conflict(6)] by (simp add: res_def wrap_def)
  have "issued w (snd (snd res)) =
          [(GetDnsRecords h' (get_root_domain domain), None),
           (UpdateDnsRecords h' (get_root_domain domain)
              (update_request_of (subdomain record_name (get_root_domain domain)) ttl
                 record_content), ru)]"
    using add_txt_record_result [OF no_conflict(6)] c by (simp add: res_def issued_def)
  with r show ?thesis by auto
next
  case (conflict h' zr s2 rd s3 ru s4 self1 w1)
  have c: "calls w1 = calls w" and lg: "logged w1 = logged w"
    using get_api_client_frame [OF conflict(1)] get_api_client_handle [OF conflict(1)]
    by simp_all
  have r: "fst res = map_option wrap ru"
    using add_txt_record_result [OF conflict(7)] by (simp add: res_def wrap_def)
  have i: "issued w (snd (snd res)) =
          [(GetDnsRecords h' (get_root_domain domain), None),
           (DeleteDnsRecords h' (get_root_domain domain)
              (delete_request_of (subdomain record_name (get_root_domain domain))), rd),
           (UpdateDnsRecords h' (get_root_domain domain)
              (update_request_of (subdomain record_name (get_root_domain domain)) ttl
                 record_content), ru)]"
    using add_txt_record_result [OF conflict(7)] c by (simp add: res_def issued_def)
  have l: "rd = Some e \<Longrightarrow>
        (WARNING, ''Error deleting existing records: '' @ str e)
          \<in> set (logged_since w (snd (snd res)))"
    using add_txt_record_result [OF conflict(7)] lg
    by (simp add: res_def logged_since_def)
  from r i l show ?thesis by auto
qed


theorem add_txt_record_failures_witness:
  "fst (acme_add (failing None (Some (Exception ''API Error'')) None None)) =
     Some (PluginError ''Encountered error adding TXT record: API Error''
             (Exception ''API Error''))
   \<and> fst (acme_add (failing None None None (Some (Exception ''API Error'')))) =
     Some (PluginError ''Encountered error adding TXT record: API Error''
             (Exception ''API Error''))
   \<and> fst (acme_add (failing None None (Some (Exception ''API Error'')) None)) = None
   \<and> (WARNING, ''Error deleting existing records: API Error'')
       \<in> set (logged_since (world0 bbdevs_zone)
                (snd (snd (acme_add (failing None None (Some (Exception ''API Error'')) None)))))"
proof -
  let ?e = "Exception ''API Error''"
  let ?w = "world0 bbdevs_zone"
  have l: "(GetDnsRecords 0 ''bbdevs.com'', Some ?e)
           \<in> set (issued ?w (snd (snd (acme_add (failing None (Some ?e) None None)))))"
    by (simp add: acme_add_list_fails)
  have u: "(UpdateDnsRecords 0 ''bbdevs.com''
              (update_request_of ''_acme-challenge'' 300 ''new-content''), Some ?e)
           \<in> set (issued ?w (snd (snd (acme_add (failing None None None (Some ?e))))))"
    by (simp add: acme_add_update_fails)
  have d: "(DeleteDnsRecords 0 ''bbdevs.com'' (delete_request_of ''_acme-challenge''), Some ?e)
           \<in> set (issued ?w (snd (snd (acme_add (failing None None (Some ?e) None)))))"
    by (simp add: acme_add_delete_fails)
  have 1: "fst (acme_add (failing None (Some ?e) None None)) =
     Some (PluginError ''Encountered error adding TXT record: API Error'' ?e)"
    using l add_txt_record_failures
      [where h = 0 and z = "''bbdevs.com''" and e = ?e
         and P = "failing None (Some ?e) None None" and self = "HostingerClient ''token''"
         and domain = "''bbdevs.com''" and record_name = "''_acme-challenge.bbdevs.com''"
         and record_content = "''new-content''" and ttl = 300 and w = ?w]
    by (simp add: acme_add_def)
  have 2: "fst (acme_add (failing None None None (Some ?e))) =
     Some (PluginError ''Encountered error adding TXT record: API Error'' ?e)"
    using u add_txt_record_failures
      [where h = 0 and z = "''bbdevs.com''" and e = ?e
         and P = "failing None None None (Some ?e)" and self = "HostingerClient ''token''"
         and domain = "''bbdevs.com''" and record_name = "''_acme-challenge.bbdevs.com''"
         and record_content = "''new-content''" and ttl = 300 and w = ?w
         and q = "update_request_of ''_acme-challenge'' 300 ''new-content''"]
    by (simp add: acme_add_def)
  note t = add_txt_record_failures
      [where h = 0 and z = "''bbdevs.com''" and e = ?e
         and P = "failing None None (Some ?e) None" and self = "HostingerClient ''token''"
         and domain = "''bbdevs.com''" and record_name = "''_acme-challenge.bbdevs.com''"
         and record_content = "''new-content''" and ttl = 300 and w = ?w
         and d = "delete_request_of ''_acme-challenge''", folded acme_add_def]
  from t d have 3: "(WARNING, ''Error deleting existing records: API Error'')
       \<in> set (logged_since ?w (snd (snd (acme_add (failing None None (Some ?e) None)))))"
    by simp
  from t d obtain ru :: "exn option" and q' where
    "issued ?w (snd (snd (acme_add (failing None None (Some ?e) None)))) =
       [(GetDnsRecords 0 ''bbdevs.com'', None),
        (DeleteDnsRecords 0 ''bbdevs.com'' (delete_request_of ''_acme-challenge''), Some ?e),
        (UpdateDnsRecords 0 ''bbdevs.com'' q', ru)]"
    "fst (acme_add (failing None None (Some ?e) None)) =
       map_option (\<lambda>e. PluginError (''Encountered error adding TXT record: '' @ str e) e) ru"
    by blast
  then have 4: "fst (acme_add (failing None None (Some ?e) None)) = None"
    by (simp add: acme_add_delete_fails)
  from 1 2 3 4 show ?thesis by simp
qed

section \<open>Claims about \<^verbatim>\<open>del_txt_record\<close>\<close>

lemma get_api_client_logged:
  "get_api_client P self w = (r, self1, w1) \<Longrightarrow> \<exists>ls. logged w1 = logged w @ ls"
  by (auto simp: get_api_client_def split: option.splits exn.splits)

lemma del_try_no_client:
  "get_api_client P self w = (Inl e, self1, w1) \<Longrightarrow>
   del_txt_record_try P self domain record_name record_content w = (Some e, self1, w1)"
  by (simp add: del_txt_record_try_def)

lemma del_try_no_models:
  "get_api_client P self w = (Inr h, self1, w1) \<Longrightarrow> import_models P = Some e \<Longrightarrow>
   del_txt_record_try P self domain record_name record_content w = (Some e, self1, w1)"
  by (simp add: del_txt_record_try_def Let_def)

lemma del_try_called:
  "get_api_client P self w = (Inr h, self1, w1) \<Longrightarrow> import_models P = None \<Longrightarrow>
   delete_dns_records_v1 P (get_root_domain domain)
     (delete_request_of (subdomain record_name (get_root_domain domain))) (server w1)
     = (rd, s) \<Longrightarrow>
   del_txt_record_try P self domain record_name record_content w =
     (rd, self1,
      w1\<lparr>server := s,
         calls := calls w1 @
           [(DeleteDnsRecords h (get_root_domain domain)
               (delete_request_of (subdomain record_name (get_root_domain domain))), rd)]\<rparr>)"
  by (simp add: del_txt_record_try_def Let_def api_delete_dns_records_v1_def)

lemma del_txt_record_try_cases [case_names no_client no_models called]:
  fixes P :: "'s provider" and self :: hostinger_client and w :: "'s world"
    and domain record_name record_content :: string
  defines "root \<equiv> get_root_domain domain"
  defines "sub \<equiv> subdomain record_name (get_root_domain domain)"
  defines "t \<equiv> del_txt_record_try P self domain record_name record_content w"
  obtains
    (no_client) e self1 w1 where
      "get_api_client P self w = (Inl e, self1, w1)"
      "t = (Some e, self1, w1)"
  | (no_models) h e self1 w1 where
      "get_api_client P self w = (Inr h, self1, w1)"
      "import_models P = Some e"
      "t = (Some e, self1, w1)"
  | (called) h rd s self1 w1 where
      "get_api_client P self w = (Inr h, self1, w1)"
      "import_models P = None"
      "delete_dns_records_v1 P root (delete_request_of sub) (server w1) = (rd, s)"
      "t = (rd, self1,
            w1\<lparr>server := s,
               calls := calls w1 @ [(DeleteDnsRecords h root (delete_request_of sub), rd)]\<rparr>)"
proof -
  obtain r self1 w1 where g: "get_api_client P self w = (r, self1, w1)"
    by (rule prod_cases3)
  show thesis
  proof (cases r)
    case (Inl e)
    with g show thesis
      using no_client del_try_no_client unfolding t_def by blast
  next
    case (Inr h)
    note g' = g [unfolded Inr]
    show thesis
    proof (cases "import_models P")
      case (Some e)
      with g' show thesis
        using no_models del_try_no_models unfolding t_def by blast
    next
      case None
      obtain rd s where
        d: "delete_dns_records_v1 P root (delete_request_of sub) (server w1) = (rd, s)"
        by (rule prod.exhaust)
      show thesis
        using called [OF g' None d]
          del_try_called [OF g' None d [unfolded root_def sub_def]]
        unfolding t_def root_def sub_def by blast
    qed
  qed
qed

lemma del_txt_record_result:
  "del_txt_record_try P self domain record_name record_content w = (r, self1, w1) \<Longrightarrow>
   del_txt_record P self domain record_name record_content w =
     (None, self1,
      w1\<lparr>logged := logged w1 @
           (case r of None \<Rightarrow> []
            | Some e \<Rightarrow> [(WARNING, ''Encountered error deleting TXT record: '' @ str e)])\<rparr>)"
  by (cases r) (simp_all add: del_txt_record_def)

lemma in_logged_since:
  "logged w1 = logged w @ ls \<Longrightarrow> logged w' = logged w1 @ [x] \<Longrightarrow>
   x \<in> set (logged_since w w')"
  by (simp add: logged_since_def)

lemma acme_del_delete_fails:
  "issued (world0 bbdevs_zone)
     (snd (snd (acme_del (failing None None (Some (Exception ''API Error'')) None)))) =
   [(DeleteDnsRecords 0 ''bbdevs.com'' (delete_request_of ''_acme-challenge''),
     Some (Exception ''API Error''))]"
  by (simp add: acme_del_def eval_defs)

text \<open>
  Claim C5. \<^verbatim>\<open>del_txt_record\<close> returns normally for every provider, client, world and
  arguments. When its delete request fails, and when the API client cannot be obtained
  (in which case no request is issued), the exception is logged as a warning with the
  exception's text and is not raised.
\<close>

theorem del_txt_record_returns_normally:
  fixes P :: "'s provider" and self :: hostinger_client and w :: "'s world"
    and domain record_name record_content :: string
  defines "res \<equiv> del_txt_record P self domain record_name record_content w"
  defines "warning \<equiv> (\<lambda>e. (WARNING, ''Encountered error deleting TXT record: '' @ str e))"
  shows
    "fst res = None
     \<and> ((DeleteDnsRecords h z d, Some e) \<in> set (issued w (snd (snd res))) \<longrightarrow>
          warning e \<in> set (logged_since w (snd (snd res))))
     \<and> (fst (get_api_client P self w) = Inl e \<longrightarrow>
          issued w (snd (snd res)) = [] \<and> warning e \<in> set (logged_since w (snd (snd res))))"
proof (cases rule: del_txt_record_try_cases [of P self w domain record_name record_content])
  case (no_client e' self1 w1)
  note r = del_txt_record_result [OF no_client(2)]
  have c: "calls w1 = calls w"
    using get_api_client_frame [OF no_client(1)] by simp
  obtain ls where ls: "logged w1 = logged w @ ls"
    using get_api_client_logged [OF no_client(1)] by blast
  have "warning e' \<in> set (logged_since w (snd (snd res)))"
    by (rule in_logged_since [OF ls]) (simp add: res_def r warning_def)
  moreover have "issued w (snd (snd res)) = []"
    using c by (simp add: res_def r issued_def)
  moreover have "fst res = None"
    by (simp add: res_def r)
  ultimately show ?thesis
    using no_client(1) by auto
next
  case (no_models h' e' self1 w1)
  note r = del_txt_record_result [OF no_models(3)]
  have c: "calls w1 = calls w"
    using get_api_client_frame [OF no_models(1)] by simp
  have "issued w (snd (snd res)) = []"
    using c by (simp add: res_def r issued_def)
  moreover have "fst res = None"
    by (simp add: res_def r)
  ultimately show ?thesis
    using no_models(1) by simp
next
  case (called h' rd s self1 w1)
  note r = del_txt_record_result [OF called(4)]
  have c: "calls w1 = calls w" and lg: "logged w1 = logged w"
    using get_api_client_frame [OF called(1)] get_api_client_handle [OF called(1)]
    by simp_all
  have i: "issued w (snd (snd res)) =
      [(DeleteDnsRecords h' (get_root_domain domain)
          (delete_request_of (subdomain record_name (get_root_domain domain))), rd)]"
    using c by (simp add: res_def r issued_def)
  have l: "rd = Some e \<Longrightarrow> warning e \<in> set (logged_since w (snd (snd res)))"
    using lg by (simp add: res_def r logged_since_def warning_def)
  have "fst res = None"
    by (simp add: res_def r)
  with i l show ?thesis
    using called(1) by auto
qed

theorem del_txt_record_returns_normally_witness:
  "fst (acme_del (failing None None (Some (Exception ''API Error'')) None)) = None
   \<and> (WARNING, ''Encountered error deleting TXT record: API Error'')
       \<in> set (logged_since (world0 bbdevs_zone)
            (snd (snd (acme_del (failing None None (Some (Exception ''API Error'')) None)))))
   \<and> fst (acme_del (failing (Some (Exception ''bad token'')) None None None)) = None
   \<and> issued (world0 bbdevs_zone)
        (snd (snd (acme_del (failing (Some (Exception ''bad token'')) None None None)))) = []
   \<and> (WARNING, ''Encountered error deleting TXT record: bad token'')
       \<in> set (logged_since (world0 bbdevs_zone)
            (snd (snd (acme_del (failing (Some (Exception ''bad token'')) None None None)))))"
proof -
  let ?e = "Exception ''API Error''"
  let ?b = "Exception ''bad token''"
  let ?w = "world0 bbdevs_zone"
  have d: "(DeleteDnsRecords 0 ''bbdevs.com'' (delete_request_of ''_acme-challenge''), Some ?e)
           \<in> set (issued ?w (snd (snd (acme_del (failing None None (Some ?e) None)))))"
    by (simp add: acme_del_delete_fails)
  have g: "fst (get_api_client (failing (Some ?b) None None None) (HostingerClient ''token'') ?w)
           = Inl ?b"
    by (simp add: get_api_client_def failing_def HostingerClient_def)
  note t1 = del_txt_record_returns_normally
      [where h = 0 and z = "''bbdevs.com''" and e = ?e
         and P = "failing None None (Some ?e) None" and self = "HostingerClient ''token''"
         and domain = "''bbdevs.com''" and record_name = "''_acme-challenge.bbdevs.com''"
         and record_content = "''content''" and w = ?w
         and d = "delete_request_of ''_acme-challenge''", folded acme_del_def]
  note t2 = del_txt_record_returns_normally
      [where e = ?b
         and P = "failing (Some ?b) None None None" and self = "HostingerClient ''token''"
         and domain = "''bbdevs.com''" and record_name = "''_acme-challenge.bbdevs.com''"
         and record_content = "''content''" and w = ?w, folded acme_del_def]
  from t1 d t2 g show ?thesis by simp
qed

text \<open>
  Claim C9. The record content passed to \<^verbatim>\<open>del_txt_record\<close> has no effect: two calls that
  differ in it only give the same result, the same requests with the same outcomes, the
  same server state and the same log; the same holds for \<^verbatim>\<open>_cleanup\<close>, which passes its
  validation token on. (\<^verbatim>\<open>_cleanup\<close> writes the token to a DEBUG record, which is not
  part of \<open>logged\<close>.)
\<close>

theorem del_txt_record_ignores_content:
  "del_txt_record P self domain record_name content1 w =
     del_txt_record P self domain record_name content2 w
   \<and> cleanup P a domain record_name content1 w = cleanup P a domain record_name content2 w"
proof -
  have d: "del_txt_record P client domain record_name content1 w =
           del_txt_record P client domain record_name content2 w" for client
    by (simp add: del_txt_record_def del_txt_record_try_def)
  have "cleanup P a domain record_name content1 w = cleanup P a domain record_name content2 w"
    unfolding cleanup_def by (simp only: d)
  with d show ?thesis by simp
qed

theorem del_txt_record_ignores_content_witness:
  "acme_del stub =
     del_txt_record stub (HostingerClient ''token'') ''bbdevs.com''
       ''_acme-challenge.bbdevs.com'' ''another-token'' (world0 bbdevs_zone)
   \<and> cleanup stub prepared ''bbdevs.com'' ''_acme-challenge.bbdevs.com'' ''content''
         (world0 bbdevs_zone) =
       cleanup stub prepared ''bbdevs.com'' ''_acme-challenge.bbdevs.com'' ''another-token''
         (world0 bbdevs_zone)"
  unfolding acme_del_def
  by (rule del_txt_record_ignores_content)


section \<open>The record name with an empty prefix\<close>

lemma add_txt_record_request_names:
  fixes P :: "'s provider"
  assumes "c \<in> set (issued w (snd (snd (add_txt_record P self domain record_name record_content ttl w))))"
    and "n \<in> set (request_names (fst c))"
  shows "n = subdomain record_name (get_root_domain domain)"
proof (cases rule: add_txt_record_try_cases [of P self w domain record_name record_content ttl])
  case (no_client e self1 w1)
  have "calls w1 = calls w"
    using get_api_client_frame [OF no_client(1)] by simp
  with assms show ?thesis
    by (simp add: add_txt_record_result [OF no_client(2)] issued_def)
next
  case (no_models h e self1 w1)
  have "calls w1 = calls w"
    using get_api_client_frame [OF no_models(1)] by simp
  with assms show ?thesis
    by (simp add: add_txt_record_result [OF no_models(3)] issued_def)
next
  case (list_fails h e s self1 w1)
  have "calls w1 = calls w"
    using get_api_client_frame [OF list_fails(1)] by simp
  with assms show ?thesis
    by (auto simp add: add_txt_record_result [OF list_fails(4)] issued_def)
next
  case (no_conflict h zr s2 ru s4 self1 w1)
  have "calls w1 = calls w"
    using get_api_client_frame [OF no_conflict(1)] by simp
  with assms show ?thesis
    by (auto simp add: add_txt_record_result [OF no_conflict(6)] issued_def)
next
  case (conflict h zr s2 rd s3 ru s4 self1 w1)
  have "calls w1 = calls w"
    using get_api_client_frame [OF conflict(1)] by simp
  with assms show ?thesis
    by (auto simp add: add_txt_record_result [OF conflict(7)] issued_def)
qed

lemma del_txt_record_request_names:
  fixes P :: "'s provider"
  assumes "c \<in> set (issued w (snd (snd (del_txt_record P self domain record_name record_content w))))"
    and "n \<in> set (request_names (fst c))"
  shows "n = subdomain record_name (get_root_domain domain)"
proof (cases rule: del_txt_record_try_cases [of P self w domain record_name record_content])
  case (no_client e self1 w1)
  have "calls w1 = calls w"
    using get_api_client_frame [OF no_client(1)] by simp
  with assms show ?thesis
    by (simp add: del_txt_record_result [OF no_client(2)] issued_def)
next
  case (no_models h e self1 w1)
  have "calls w1 = calls w"
    using get_api_client_frame [OF no_models(1)] by simp
  with assms show ?thesis
    by (simp add: del_txt_record_result [OF no_models(3)] issued_def)
next
  case (called h rd s self1 w1)
  have "calls w1 = calls w"
    using get_api_client_frame [OF called(1)] by simp
  with assms show ?thesis
    by (auto simp add: del_txt_record_result [OF called(4)] issued_def)
qed

lemma empty_zone_add_issued:
  "issued (world0 no_zone)
     (snd (snd (add_txt_record stub (HostingerClient ''token'') ''bbdevs.com'' record_name
                  record_content ttl (world0 no_zone)))) =
   [(GetDnsRecords 0 ''bbdevs.com'', None),
    (UpdateDnsRecords 0 ''bbdevs.com''
       (update_request_of (subdomain record_name ''bbdevs.com'') ttl record_content), None)]"
  by (simp add: eval_defs)

lemma empty_zone_del_issued:
  "issued (world0 no_zone)
     (snd (snd (del_txt_record stub (HostingerClient ''token'') ''bbdevs.com'' record_name
                  record_content (world0 no_zone)))) =
   [(DeleteDnsRecords 0 ''bbdevs.com''
       (delete_request_of (subdomain record_name ''bbdevs.com'')), None)]"
  by (simp add: eval_defs)

text \<open>
  Claim C10. For a non-empty zone, the relative name of the record name \<open>.zone\<close> is the
  empty string, which is neither \<open>@\<close> nor the record name. When the zone is the root
  domain of the domain, every name in the requests of \<^verbatim>\<open>add_txt_record\<close> and of
  \<^verbatim>\<open>del_txt_record\<close> for that record name is the empty string.
\<close>

theorem subdomain_of_dot_zone:
  fixes P :: "'s provider"
  assumes "root_domain \<noteq> []"
  shows
    "subdomain (''.'' @ root_domain) root_domain = []
     \<and> subdomain (''.'' @ root_domain) root_domain \<noteq> ''@''
     \<and> subdomain (''.'' @ root_domain) root_domain \<noteq> ''.'' @ root_domain
     \<and> (get_root_domain domain = root_domain \<longrightarrow>
          (\<forall>c \<in> set (issued w (snd (snd
                (add_txt_record P self domain (''.'' @ root_domain) record_content ttl w)))).
             \<forall>n \<in> set (request_names (fst c)). n = [])
          \<and> (\<forall>c \<in> set (issued w (snd (snd
                (del_txt_record P self domain (''.'' @ root_domain) record_content w)))).
             \<forall>n \<in> set (request_names (fst c)). n = []))"
proof -
  have s: "subdomain (''.'' @ root_domain) root_domain = []"
    using subdomain_strip [of "[]" root_domain] by simp
  show ?thesis
    using s add_txt_record_request_names [of _ w P self domain "''.'' @ root_domain" record_content ttl]
      del_txt_record_request_names [of _ w P self domain "''.'' @ root_domain" record_content]
    by auto
qed


theorem subdomain_of_dot_zone_witness:
  "subdomain ''.bbdevs.com'' ''bbdevs.com'' = []
   \<and> issued (world0 no_zone)
       (snd (snd (add_txt_record stub (HostingerClient ''token'') ''bbdevs.com''
                    ''.bbdevs.com'' ''content'' 300 (world0 no_zone)))) =
     [(GetDnsRecords 0 ''bbdevs.com'', None),
      (UpdateDnsRecords 0 ''bbdevs.com'' (update_request_of [] 300 ''content''), None)]
   \<and> issued (world0 no_zone)
       (snd (snd (del_txt_record stub (HostingerClient ''token'') ''bbdevs.com''
                    ''.bbdevs.com'' ''content'' (world0 no_zone)))) =
     [(DeleteDnsRecords 0 ''bbdevs.com'' (delete_request_of []), None)]"
proof -
  have ne: "''bbdevs.com'' \<noteq> []"
    by simp
  have "subdomain (''.'' @ ''bbdevs.com'') ''bbdevs.com'' = []"
    using subdomain_of_dot_zone [OF ne] by blast
  then have s: "subdomain ''.bbdevs.com'' ''bbdevs.com'' = []"
    by simp
  show ?thesis
    by (simp only: empty_zone_add_issued empty_zone_del_issued s simp_thms)
qed

section \<open>Claims about \<^verbatim>\<open>add_txt_record\<close> and the stub provider\<close>

lemma get_api_client_stub:
  "\<exists>h self1 w1. get_api_client stub self w = (Inr h, self1, w1)"
  by (cases "api_client self") (simp_all add: get_api_client_def stub_def)

lemma no_conflict_filter:
  "\<not> conflict sub zr \<Longrightarrow> filter (\<lambda>r. \<not> (name r = sub \<and> type r = ''TXT'')) zr = zr"
  by (auto simp: conflict_def list_ex_iff filter_id_conv)

lemma add_txt_record_stub:
  fixes w :: "(string \<Rightarrow> dns_record list) world" and self :: hostinger_client
    and domain record_name record_content :: string and ttl :: int
  defines "root \<equiv> get_root_domain domain"
  defines "sub \<equiv> subdomain record_name (get_root_domain domain)"
  defines "res \<equiv> add_txt_record stub self domain record_name record_content ttl w"
  shows "fst res = None \<and>
     server (snd (snd res)) =
       (server w)
         (root := filter (\<lambda>r. \<not> (name r = sub \<and> type r = ''TXT'')) (server w root)
                  @ [\<lparr>name = sub, type = ''TXT'', content = record_content,
                      record_ttl = ttl\<rparr>])"
proof (cases rule: add_txt_record_try_cases [of stub self w domain record_name record_content ttl])
  case (no_client e self1 w1)
  then show ?thesis
    using get_api_client_stub [of self w] by simp
next
  case (no_models h e self1 w1)
  then show ?thesis by (simp add: stub_def)
next
  case (list_fails h e s self1 w1)
  then show ?thesis by (simp add: stub_def)
next
  case (no_conflict h zr s2 ru s4 self1 w1)
  have sv: "server w1 = server w"
    using get_api_client_frame [OF no_conflict(1)] by simp
  have zr: "zr = server w root" "s2 = server w"
    using no_conflict(3) by (auto simp add: stub_def sv root_def)
  have u: "ru = None"
    "s4 = (server w)(root := server w root
             @ [\<lparr>name = sub, type = ''TXT'', content = record_content, record_ttl = ttl\<rparr>])"
    using no_conflict(5) by (auto simp add: stub_def zr root_def sub_def new_records_def)
  have f: "filter (\<lambda>r. \<not> (name r = sub \<and> type r = ''TXT'')) (server w root) = server w root"
    using no_conflict(4) no_conflict_filter by (simp add: zr sub_def)
  show ?thesis
    using f by (simp add: res_def add_txt_record_result [OF no_conflict(6)] u)
next
  case (conflict h zr s2 rd s3 ru s4 self1 w1)
  have sv: "server w1 = server w"
    using get_api_client_frame [OF conflict(1)] by simp
  have zr: "zr = server w root" "s2 = server w"
    using conflict(3) by (auto simp add: stub_def sv root_def)
  have d: "rd = None"
    "s3 = (server w)(root := filter (\<lambda>r. \<not> (name r = sub \<and> type r = ''TXT''))
                               (server w root))"
    using conflict(5)
    by (auto simp add: stub_def zr root_def sub_def matches_def eq_commute [of "subdomain _ _"]
        eq_commute [of "''TXT''"])
  have u: "ru = None"
    "s4 = (server w)(root := filter (\<lambda>r. \<not> (name r = sub \<and> type r = ''TXT''))
                               (server w root)
             @ [\<lparr>name = sub, type = ''TXT'', content = record_content, record_ttl = ttl\<rparr>])"
    using conflict(6) by (auto simp add: stub_def d root_def sub_def new_records_def)
  show ?thesis
    by (simp add: res_def add_txt_record_result [OF conflict(7)] u)
qed


lemma add_txt_record_update_requests:
  fixes P :: "'s provider"
  assumes "(UpdateDnsRecords h z q, r)
             \<in> set (issued w (snd (snd (add_txt_record P self domain record_name record_content ttl w))))"
  shows "z = get_root_domain domain \<and>
         q = update_request_of (subdomain record_name (get_root_domain domain)) ttl record_content"
proof (cases rule: add_txt_record_try_cases [of P self w domain record_name record_content ttl])
  case (no_client e self1 w1)
  have "calls w1 = calls w"
    using get_api_client_frame [OF no_client(1)] by simp
  with assms show ?thesis
    by (simp add: add_txt_record_result [OF no_client(2)] issued_def)
next
  case (no_models h e self1 w1)
  have "calls w1 = calls w"
    using get_api_client_frame [OF no_models(1)] by simp
  with assms show ?thesis
    by (simp add: add_txt_record_result [OF no_models(3)] issued_def)
next
  case (list_fails h e s self1 w1)
  have "calls w1 = calls w"
    using get_api_client_frame [OF list_fails(1)] by simp
  with assms show ?thesis
    by (simp add: add_txt_record_result [OF list_fails(4)] issued_def)
next
  case (no_conflict h zr s2 ru s4 self1 w1)
  have "calls w1 = calls w"
    using get_api_client_frame [OF no_conflict(1)] by simp
  with assms show ?thesis
    by (simp add: add_txt_record_result [OF no_conflict(6)] issued_def)
next
  case (conflict h zr s2 rd s3 ru s4 self1 w1)
  have "calls w1 = calls w"
    using get_api_client_frame [OF conflict(1)] by simp
  with assms show ?thesis
    by (simp add: add_txt_record_result [OF conflict(7)] issued_def)
qed

lemma acme_add_stub:
  "issued (world0 bbdevs_zone) (snd (snd (acme_add stub))) =
     [(GetDnsRecords 0 ''bbdevs.com'', None),
      (DeleteDnsRecords 0 ''bbdevs.com'' (delete_request_of ''_acme-challenge''), None),
      (UpdateDnsRecords 0 ''bbdevs.com''
         (update_request_of ''_acme-challenge'' 300 ''new-content''), None)]"
  "server (snd (snd (acme_add stub))) ''bbdevs.com'' =
     [\<lparr>name = ''@'', type = ''A'', content = ''192.0.2.1'', record_ttl = 3600\<rparr>,
      \<lparr>name = ''www'', type = ''CNAME'', content = ''bbdevs.com'', record_ttl = 3600\<rparr>,
      \<lparr>name = ''_acme-challenge'', type = ''TXT'', content = ''new-content'',
         record_ttl = 300\<rparr>]"
  by (simp_all add: acme_add_def eval_defs)

text \<open>
  Claim C7. Every create request that \<^verbatim>\<open>add_txt_record\<close> issues, for any provider, has
  \<open>overwrite = False\<close> and a single entry, the TXT record at the relative name. Against
  the stub provider, the call leaves every record unchanged whose zone, name or type
  differs from the target's, in every zone and in the order listed.
\<close>

theorem add_txt_record_overwrite_false:
  fixes P :: "'s provider" and self :: hostinger_client and w :: "'s world"
    and ws :: "(string \<Rightarrow> dns_record list) world"
    and domain record_name record_content :: string and ttl :: int
  defines "root \<equiv> get_root_domain domain"
  defines "rel \<equiv> subdomain record_name (get_root_domain domain)"
  shows
    "(\<forall>c \<in> set (issued w
                  (snd (snd (add_txt_record P self domain record_name record_content ttl w)))).
        \<forall>h z q. fst c = UpdateDnsRecords h z q \<longrightarrow>
          overwrite q = False
          \<and> zone q = [DNSV1ZoneUpdateRequestZoneInner rel ''TXT'' ttl
                        [DNSV1ZoneUpdateRequestZoneInnerRecordsInner record_content]])
     \<and> (\<forall>z. filter (\<lambda>r. \<not> (z = root \<and> name r = rel \<and> type r = ''TXT''))
               (server (snd (snd (add_txt_record stub self domain record_name record_content
                                    ttl ws))) z)
            = filter (\<lambda>r. \<not> (z = root \<and> name r = rel \<and> type r = ''TXT''))
                (server ws z))"
proof (intro conjI ballI allI impI)
  fix c h z q
  assume c: "c \<in> set (issued w
      (snd (snd (add_txt_record P self domain record_name record_content ttl w))))"
    and u: "fst c = UpdateDnsRecords h z q"
  from u have "c = (UpdateDnsRecords h z q, snd c)"
    by (cases c) simp
  with c have q: "q = update_request_of rel ttl record_content"
    using add_txt_record_update_requests [of h z q "snd c" w P self domain record_name
        record_content ttl]
    by (simp add: rel_def)
  from q show "overwrite q = False"
    by simp
  from q show "zone q = [DNSV1ZoneUpdateRequestZoneInner rel ''TXT'' ttl
                           [DNSV1ZoneUpdateRequestZoneInnerRecordsInner record_content]]"
    by simp
next
  fix z
  show "filter (\<lambda>r. \<not> (z = root \<and> name r = rel \<and> type r = ''TXT''))
          (server (snd (snd (add_txt_record stub self domain record_name record_content
                               ttl ws))) z)
        = filter (\<lambda>r. \<not> (z = root \<and> name r = rel \<and> type r = ''TXT'')) (server ws z)"
    using add_txt_record_stub [of self domain record_name record_content ttl ws]
    by (simp add: root_def rel_def)
qed

theorem add_txt_record_overwrite_false_witness:
  "(UpdateDnsRecords 0 ''bbdevs.com''
      (update_request_of ''_acme-challenge'' 300 ''new-content''), None)
     \<in> set (issued (world0 bbdevs_zone) (snd (snd (acme_add stub))))
   \<and> overwrite (update_request_of ''_acme-challenge'' 300 ''new-content'') = False
   \<and> filter (\<lambda>r. (name r, type r) \<noteq> (''_acme-challenge'', ''TXT''))
        (server (snd (snd (acme_add stub))) ''bbdevs.com'') =
      [\<lparr>name = ''@'', type = ''A'', content = ''192.0.2.1'', record_ttl = 3600\<rparr>,
       \<lparr>name = ''www'', type = ''CNAME'', content = ''bbdevs.com'', record_ttl = 3600\<rparr>]"
proof -
  note t = add_txt_record_overwrite_false
      [where P = stub and self = "HostingerClient ''token''" and domain = "''bbdevs.com''"
         and record_name = "''_acme-challenge.bbdevs.com''" and record_content = "''new-content''"
         and ttl = 300 and w = "world0 bbdevs_zone" and ws = "world0 bbdevs_zone",
       folded acme_add_def, unfolded root_bbdevs sub_acme_bbdevs]
  have m: "(UpdateDnsRecords 0 ''bbdevs.com''
      (update_request_of ''_acme-challenge'' 300 ''new-content''), None)
     \<in> set (issued (world0 bbdevs_zone) (snd (snd (acme_add stub))))"
    by (simp add: acme_add_stub)
  from t m have o: "overwrite (update_request_of ''_acme-challenge'' 300 ''new-content'') = False"
    by fastforce
  from t have "filter (\<lambda>r. \<not> (''bbdevs.com'' = ''bbdevs.com'' \<and> name r = ''_acme-challenge'' \<and> type r = ''TXT''))
        (server (snd (snd (acme_add stub))) ''bbdevs.com'') =
      filter (\<lambda>r. \<not> (''bbdevs.com'' = ''bbdevs.com'' \<and> name r = ''_acme-challenge'' \<and> type r = ''TXT''))
        (server (world0 bbdevs_zone) ''bbdevs.com'')"
    by blast
  then have f: "filter (\<lambda>r. (name r, type r) \<noteq> (''_acme-challenge'', ''TXT''))
        (server (snd (snd (acme_add stub))) ''bbdevs.com'') =
      [\<lparr>name = ''@'', type = ''A'', content = ''192.0.2.1'', record_ttl = 3600\<rparr>,
       \<lparr>name = ''www'', type = ''CNAME'', content = ''bbdevs.com'', record_ttl = 3600\<rparr>]"
    by (simp add: world0_def bbdevs_zone_def no_zone_def)
  from m o f show ?thesis by simp
qed

text \<open>
  Claim C6. Against the stub provider, from any server state and for any first content
  and ttl (in particular for the same arguments), two calls of \<^verbatim>\<open>add_txt_record\<close> in a
  row on the same client, for the same domain and record name, both return normally and
  leave exactly one TXT record at the relative name in the zone: the one with the
  content and ttl of the second call.
\<close>

theorem add_txt_record_twice:
  fixes w :: "(string \<Rightarrow> dns_record list) world" and self :: hostinger_client
    and domain record_name first_content record_content :: string and first_ttl ttl :: int
  defines "root \<equiv> get_root_domain domain"
  defines "rel \<equiv> subdomain record_name (get_root_domain domain)"
  defines "r1 \<equiv> add_txt_record stub self domain record_name first_content first_ttl w"
  defines "r2 \<equiv> add_txt_record stub (fst (snd r1)) domain record_name record_content ttl
                   (snd (snd r1))"
  shows "fst r1 = None \<and> fst r2 = None
     \<and> filter (\<lambda>r. name r = rel \<and> type r = ''TXT'') (server (snd (snd r2)) root) =
         [\<lparr>name = rel, type = ''TXT'', content = record_content, record_ttl = ttl\<rparr>]"
proof -
  have 1: "fst r1 = None"
    using add_txt_record_stub [of self domain record_name first_content first_ttl w]
    by (simp add: r1_def)
  have 2: "fst r2 = None"
    and s: "server (snd (snd r2)) =
       (server (snd (snd r1)))
         (root := filter (\<lambda>r. \<not> (name r = rel \<and> type r = ''TXT'')) (server (snd (snd r1)) root)
                  @ [\<lparr>name = rel, type = ''TXT'', content = record_content,
                      record_ttl = ttl\<rparr>])"
    using add_txt_record_stub [of "fst (snd r1)" domain record_name record_content ttl
        "snd (snd r1)"]
    by (simp_all add: r2_def root_def rel_def)
  have "filter (\<lambda>r. name r = rel \<and> type r = ''TXT'') (server (snd (snd r2)) root) =
         [\<lparr>name = rel, type = ''TXT'', content = record_content, record_ttl = ttl\<rparr>]"
    by (simp add: s)
  with 1 2 show ?thesis by simp
qed

theorem add_txt_record_twice_witness:
  "filter (\<lambda>r. name r = ''_acme-challenge'' \<and> type r = ''TXT'')
     (server (snd (snd (add_txt_record stub (fst (snd (acme_add stub))) ''bbdevs.com''
                          ''_acme-challenge.bbdevs.com'' ''new-content'' 300
                          (snd (snd (acme_add stub)))))) ''bbdevs.com'') =
   [\<lparr>name = ''_acme-challenge'', type = ''TXT'', content = ''new-content'', record_ttl = 300\<rparr>]"
  using add_txt_record_twice
      [where self = "HostingerClient ''token''" and domain = "''bbdevs.com''"
         and record_name = "''_acme-challenge.bbdevs.com''"
         and first_content = "''new-content''" and first_ttl = 300
         and record_content = "''new-content''" and ttl = 300 and w = "world0 bbdevs_zone",
       folded acme_add_def, unfolded root_bbdevs sub_acme_bbdevs]
  by simp

section \<open>The lifetime of the API client\<close>

lemma get_api_client_cached:
  "api_client self = Some h \<Longrightarrow> get_api_client P self w = (Inr h, self, w)"
  by (simp add: get_api_client_def)

lemma get_api_client_fresh:
  assumes "api_client self = None" and "get_api_client P self w = (r, self1, w1)"
  shows "(new_dns_zone_api P (api_token self) = None \<and> r = Inr (instances w)
            \<and> api_client self1 = Some (instances w) \<and> instances w1 = Suc (instances w))
         \<or> ((\<exists>e. r = Inl e) \<and> self1 = self \<and> instances w1 = instances w)"
  using assms by (auto simp: get_api_client_def split: option.splits exn.splits)

lemma add_txt_record_after_client:
  fixes P :: "'s provider"
  assumes g: "get_api_client P self w = (r, self1, w1)"
    and a: "add_txt_record P self domain record_name record_content ttl w = (x, self', w')"
  shows "self' = self1 \<and> instances w' = instances w1
         \<and> (\<exists>cs. calls w' = calls w @ cs \<and> (\<forall>c \<in> set cs. r = Inr (handle (fst c))))"
proof (cases rule: add_txt_record_try_cases [of P self w domain record_name record_content ttl])
  case (no_client e s1 v1)
  have "calls v1 = calls w"
    using get_api_client_frame [OF no_client(1)] by simp
  with g a no_client(1) show ?thesis
    by (auto simp add: add_txt_record_result [OF no_client(2)])
next
  case (no_models h e s1 v1)
  have "calls v1 = calls w"
    using get_api_client_frame [OF no_models(1)] by simp
  with g a no_models(1) show ?thesis
    by (auto simp add: add_txt_record_result [OF no_models(3)])
next
  case (list_fails h e s s1 v1)
  have "calls v1 = calls w"
    using get_api_client_frame [OF list_fails(1)] by simp
  with g a list_fails(1) show ?thesis
    by (auto simp add: add_txt_record_result [OF list_fails(4)])
next
  case (no_conflict h zr s2 ru s4 s1 v1)
  have "calls v1 = calls w"
    using get_api_client_frame [OF no_conflict(1)] by simp
  with g a no_conflict(1) show ?thesis
    by (auto simp add: add_txt_record_result [OF no_conflict(6)])
next
  case (conflict h zr s2 rd s3 ru s4 s1 v1)
  have "calls v1 = calls w"
    using get_api_client_frame [OF conflict(1)] by simp
  with g a conflict(1) show ?thesis
    by (auto simp add: add_txt_record_result [OF conflict(7)])
qed

lemma del_txt_record_after_client:
  fixes P :: "'s provider"
  assumes g: "get_api_client P self w = (r, self1, w1)"
    and a: "del_txt_record P self domain record_name record_content w = (x, self', w')"
  shows "self' = self1 \<and> instances w' = instances w1
         \<and> (\<exists>cs. calls w' = calls w @ cs \<and> (\<forall>c \<in> set cs. r = Inr (handle (fst c))))"
proof (cases rule: del_txt_record_try_cases [of P self w domain record_name record_content])
  case (no_client e s1 v1)
  have "calls v1 = calls w"
    using get_api_client_frame [OF no_client(1)] by simp
  with g a no_client(1) show ?thesis
    by (auto simp add: del_txt_record_result [OF no_client(2)])
next
  case (no_models h e s1 v1)
  have "calls v1 = calls w"
    using get_api_client_frame [OF no_models(1)] by simp
  with g a no_models(1) show ?thesis
    by (auto simp add: del_txt_record_result [OF no_models(3)])
next
  case (called h rd s s1 v1)
  have "calls v1 = calls w"
    using get_api_client_frame [OF called(1)] by simp
  with g a called(1) show ?thesis
    by (auto simp add: del_txt_record_result [OF called(4)])
qed

lemma client_op_after_client:
  fixes P :: "'s provider"
  assumes g: "get_api_client P self w = (r, self1, w1)"
    and a: "run_client_op P self op w = (x, self', w')"
  shows "self' = self1 \<and> instances w' = instances w1
         \<and> (\<exists>cs. calls w' = calls w @ cs \<and> (\<forall>c \<in> set cs. r = Inr (handle (fst c))))"
proof (cases op)
  case (AddTxtRecord domain record_name record_content ttl)
  with a show ?thesis
    using add_txt_record_after_client [OF g] by simp
next
  case (DelTxtRecord domain record_name record_content)
  with a show ?thesis
    using del_txt_record_after_client [OF g] by simp
qed

lemma client_ops_cached:
  "api_client self = Some h \<Longrightarrow> run_client_ops P self ops w = (self', w') \<Longrightarrow>
   instances w' = instances w
   \<and> (\<exists>cs. calls w' = calls w @ cs \<and> (\<forall>c \<in> set cs. handle (fst c) = h))"
proof (induction ops arbitrary: w)
  case Nil
  then show ?case by simp
next
  case (Cons op ops)
  obtain x s1 v1 where o: "run_client_op P self op w = (x, s1, v1)"
    by (rule prod_cases3)
  note g = get_api_client_cached [OF Cons.prems(1), of P w]
  from client_op_after_client [OF g o]
  obtain cs where 1: "s1 = self" "instances v1 = instances w" "calls v1 = calls w @ cs"
    "\<forall>c \<in> set cs. handle (fst c) = h"
    by auto
  from Cons.prems(2) o 1 have "run_client_ops P self ops v1 = (self', w')"
    by simp
  from Cons.IH [OF Cons.prems(1) this]
  obtain cs' where 2: "instances w' = instances v1" "calls w' = calls v1 @ cs'"
    "\<forall>c \<in> set cs'. handle (fst c) = h"
    by auto
  from 1 2 have "calls w' = calls w @ (cs @ cs')" "\<forall>c \<in> set (cs @ cs'). handle (fst c) = h"
    by auto
  with 1 2 show ?case by metis
qed

lemma client_ops_fresh:
  "api_client self = None \<Longrightarrow> run_client_ops P self ops w = (self', w') \<Longrightarrow>
   instances w' \<le> Suc (instances w)
   \<and> (\<exists>cs. calls w' = calls w @ cs \<and> (\<forall>c \<in> set cs. handle (fst c) = instances w))"
proof (induction ops arbitrary: w)
  case Nil
  then show ?case by simp
next
  case (Cons op ops)
  obtain x s1 v1 where o: "run_client_op P self op w = (x, s1, v1)"
    by (rule prod_cases3)
  obtain r s0 v0 where g: "get_api_client P self w = (r, s0, v0)"
    by (rule prod_cases3)
  from client_op_after_client [OF g o]
  obtain cs where 1: "s1 = s0" "instances v1 = instances v0" "calls v1 = calls w @ cs"
    "\<forall>c \<in> set cs. r = Inr (handle (fst c))"
    by auto
  from Cons.prems(2) o have rest: "run_client_ops P s1 ops v1 = (self', w')"
    by simp
  from get_api_client_fresh [OF Cons.prems(1) g]
  show ?case
  proof
    assume ok: "new_dns_zone_api P (api_token self) = None \<and> r = Inr (instances w)
            \<and> api_client s0 = Some (instances w) \<and> instances v0 = Suc (instances w)"
    then have "api_client s1 = Some (instances w)"
      using 1 by simp
    from client_ops_cached [OF this rest]
    obtain cs' where 2: "instances w' = instances v1" "calls w' = calls v1 @ cs'"
      "\<forall>c \<in> set cs'. handle (fst c) = instances w"
      by auto
    from ok 1 have "\<forall>c \<in> set cs. handle (fst c) = instances w"
      by auto
    with 1 2 have "calls w' = calls w @ (cs @ cs')"
      "\<forall>c \<in> set (cs @ cs'). handle (fst c) = instances w"
      by auto
    moreover have "instances w' \<le> Suc (instances w)"
      using ok 1 2 by simp
    ultimately show ?thesis by metis
  next
    assume no: "(\<exists>e. r = Inl e) \<and> s0 = self \<and> instances v0 = instances w"
    with 1 have "cs = []"
      by (cases cs) auto
    with 1 no have same: "s1 = self" "instances v1 = instances w" "calls v1 = calls w"
      by simp_all
    from Cons.IH [OF Cons.prems(1) rest [unfolded same(1)]]
    show ?thesis
      by (simp add: same)
  qed
qed


lemma get_api_client_new:
  "new_dns_zone_api P token = None \<Longrightarrow>
   get_api_client P (HostingerClient token) w =
     (Inr (instances w), (HostingerClient token)\<lparr>api_client := Some (instances w)\<rparr>,
      w\<lparr>instances := Suc (instances w)\<rparr>)"
  by (simp add: get_api_client_def HostingerClient_def)

lemma run_challenge_op_instances:
  fixes P :: "'s provider"
  assumes c: "credentials a = Some cr" and n: "new_dns_zone_api P (conf_api_token cr) = None"
  shows "instances (snd (run_challenge_op P a op w)) = Suc (instances w)"
proof (cases op)
  case (Perform domain validation_name validation)
  obtain x s1 v1 where
    o: "add_txt_record P (HostingerClient (conf_api_token cr)) domain validation_name validation
          Authenticator_ttl w = (x, s1, v1)"
    by (rule prod_cases3)
  from add_txt_record_after_client [OF get_api_client_new [OF n] o]
  have "instances v1 = Suc (instances w)"
    by simp
  then show ?thesis
    by (simp add: Perform perform_def get_hostinger_client_def c o)
next
  case (Cleanup domain validation_name validation)
  obtain x s1 v1 where
    o: "del_txt_record P (HostingerClient (conf_api_token cr)) domain validation_name validation
          w = (x, s1, v1)"
    by (rule prod_cases3)
  from del_txt_record_after_client [OF get_api_client_new [OF n] o]
  have "instances v1 = Suc (instances w)"
    by simp
  then show ?thesis
    by (simp add: Cleanup cleanup_def get_hostinger_client_def c o)
qed

lemma run_challenge_ops_instances:
  "credentials a = Some cr \<Longrightarrow> new_dns_zone_api P (conf_api_token cr) = None \<Longrightarrow>
   instances (run_challenge_ops P a ops w) = instances w + length ops"
  by (induction ops arbitrary: w) (simp_all add: run_challenge_op_instances)

lemma run_client_ops_instances:
  assumes "run_client_ops P self ops w = (self', w')"
  shows "instances w' \<le> Suc (instances w)
         \<and> (\<exists>h. \<forall>c \<in> set (issued w w'). handle (fst c) = h)"
proof (cases "api_client self")
  case None
  from client_ops_fresh [OF None assms] show ?thesis
    by (auto simp: issued_def)
next
  case (Some h)
  from client_ops_cached [OF Some assms] show ?thesis
    by (auto simp: issued_def)
qed

lemma perform_then_cleanup_calls:
  "calls perform_then_cleanup =
     [(GetDnsRecords 0 ''bbdevs.com'', None),
      (UpdateDnsRecords 0 ''bbdevs.com''
         (update_request_of ''_acme-challenge'' 60 ''test-challenge-content''), None),
      (DeleteDnsRecords 1 ''bbdevs.com'' (delete_request_of ''_acme-challenge''), None)]"
  "instances perform_then_cleanup = 2"
  by (simp_all add: perform_then_cleanup_def perform_def cleanup_def get_hostinger_client_def
      prepared_def Authenticator_ttl_def eval_defs)

text \<open>
  Claim C8, as stated, fails: \<^verbatim>\<open>_get_hostinger_client\<close> builds a new \<^verbatim>\<open>_HostingerClient\<close>
  at every call, so \<^verbatim>\<open>_perform\<close> followed by \<^verbatim>\<open>_cleanup\<close> on one authenticator constructs
  two API clients, and the delete request of \<^verbatim>\<open>_cleanup\<close> goes through another API client
  than the requests of \<^verbatim>\<open>_perform\<close>.
\<close>

theorem single_api_client_counterexample:
  "\<not> instances perform_then_cleanup \<le> 1
   \<and> handle (fst (last (calls perform_then_cleanup)))
       \<noteq> handle (fst (hd (calls perform_then_cleanup)))"
  by (simp add: perform_then_cleanup_calls)

text \<open>
  Claim C8, amended. A \<^verbatim>\<open>_HostingerClient\<close> starts without an API client. Over any
  sequence of \<^verbatim>\<open>add_txt_record\<close> and \<^verbatim>\<open>del_txt_record\<close> calls on one \<^verbatim>\<open>_HostingerClient\<close>,
  at most one API client is constructed and all requests go through the same one. On one
  authenticator with credentials, for a provider whose client construction succeeds,
  every \<^verbatim>\<open>_perform\<close> and \<^verbatim>\<open>_cleanup\<close> constructs one API client of its own.
\<close>

theorem api_client_per_hostinger_client:
  "api_client (HostingerClient token) = None
   \<and> (run_client_ops P self ops w = (self', w') \<longrightarrow>
        instances w' \<le> Suc (instances w)
        \<and> (\<forall>c \<in> set (issued w w'). \<forall>c' \<in> set (issued w w').
              handle (fst c) = handle (fst c')))
   \<and> (credentials a = Some cr \<and> new_dns_zone_api P (conf_api_token cr) = None \<longrightarrow>
        instances (run_challenge_ops P a cops w) = instances w + length cops)"
proof (intro conjI impI)
  show "api_client (HostingerClient token) = None"
    by (simp add: HostingerClient_def)
next
  assume r: "run_client_ops P self ops w = (self', w')"
  from run_client_ops_instances [OF r] show "instances w' \<le> Suc (instances w)"
    by simp
  from run_client_ops_instances [OF r]
  show "\<forall>c \<in> set (issued w w'). \<forall>c' \<in> set (issued w w'). handle (fst c) = handle (fst c')"
    by metis
next
  assume "credentials a = Some cr \<and> new_dns_zone_api P (conf_api_token cr) = None"
  then show "instances (run_challenge_ops P a cops w) = instances w + length cops"
    using run_challenge_ops_instances by blast
qed

theorem api_client_per_hostinger_client_witness:
  "instances (snd (run_client_ops stub (HostingerClient ''test_token_123456789'')
       [AddTxtRecord ''bbdevs.com'' ''_acme-challenge.bbdevs.com'' ''test-challenge-content'' 60,
        DelTxtRecord ''bbdevs.com'' ''_acme-challenge.bbdevs.com'' ''test-challenge-content'']
       (world0 no_zone))) \<le> 1
   \<and> instances (run_challenge_ops stub prepared
       [Perform ''bbdevs.com'' ''_acme-challenge.bbdevs.com'' ''test-challenge-content'',
        Cleanup ''bbdevs.com'' ''_acme-challenge.bbdevs.com'' ''test-challenge-content'']
       (world0 no_zone)) = 2"
proof -
  let ?run = "run_client_ops stub (HostingerClient ''test_token_123456789'')
       [AddTxtRecord ''bbdevs.com'' ''_acme-challenge.bbdevs.com'' ''test-challenge-content'' 60,
        DelTxtRecord ''bbdevs.com'' ''_acme-challenge.bbdevs.com'' ''test-challenge-content'']
       (world0 no_zone)"
  have r: "?run = (fst ?run, snd ?run)"
    by simp
  have c: "credentials prepared = Some (CredentialsConfiguration ''test_token_123456789'')
           \<and> new_dns_zone_api stub
                (conf_api_token (CredentialsConfiguration ''test_token_123456789'')) = None"
    by (simp add: prepared_def stub_def)
  note t = api_client_per_hostinger_client
      [where P = stub and self = "HostingerClient ''test_token_123456789''"
         and w = "world0 no_zone" and self' = "fst ?run" and w' = "snd ?run"
         and a = prepared and cr = "CredentialsConfiguration ''test_token_123456789''"]
  from t r have 1: "instances (snd ?run) \<le> Suc (instances (world0 no_zone))"
    by blast
  from t c have 2: "instances (run_challenge_ops stub prepared
       [Perform ''bbdevs.com'' ''_acme-challenge.bbdevs.com'' ''test-challenge-content'',
        Cleanup ''bbdevs.com'' ''_acme-challenge.bbdevs.com'' ''test-challenge-content'']
       (world0 no_zone)) = instances (world0 no_zone) + length
       [Perform ''bbdevs.com'' ''_acme-challenge.bbdevs.com'' ''test-challenge-content'',
        Cleanup ''bbdevs.com'' ''_acme-challenge.bbdevs.com'' ''test-challenge-content'']"
    by blast
  from 1 2 show ?thesis
    by (simp add: world0_def)
qed

end
